theory Spec2Isabelle
  imports Main "HOL-Library.AList"
begin

section \<open>JavaScript values\<close>

text \<open>
  The adapter passes plain JavaScript data around: the caller's \<open>options\<close> and
  \<open>values\<close>, the data properties of the configuration, the response and its body.
  They are modelled as trees of own properties. Numbers are the integers; objects are
  association lists in insertion order; arrays carry their elements only. Functions are not
  data here: the function-valued properties of the configuration are fields of the
  \<open>config\<close> record below. Properties inherited from a prototype (\<open>constructor\<close>,
  the \<open>length\<close> of a string or array, a user-defined \<open>toString\<close>) are not modelled.
\<close>

datatype jsval =
    Undefined
  | Null
  | Bool bool
  | Num int
  | Str string
  | Arr "jsval list"
  | Obj "(string \<times> jsval) list"

type_synonym obj = "(string \<times> jsval) list"

text \<open>ToBoolean: what \<open>if (v)\<close>, \<open>!v\<close>, \<open>a && b\<close> and \<open>a || b\<close> test.\<close>

fun truthy :: "jsval \<Rightarrow> bool" where
  "truthy Undefined = False"
| "truthy Null = False"
| "truthy (Bool b) = b"
| "truthy (Num n) = (n \<noteq> 0)"
| "truthy (Str s) = (s \<noteq> [])"
| "truthy (Arr xs) = True"
| "truthy (Obj kvs) = True"

text \<open>Reading a property of \<open>undefined\<close> or \<open>null\<close> throws a TypeError.\<close>

fun nullish :: "jsval \<Rightarrow> bool" where
  "nullish Undefined = True"
| "nullish Null = True"
| "nullish v = False"

text \<open>
  What a call can throw: the TypeError of the language (a property of \<open>undefined\<close> or
  \<open>null\<close>, a call of something that is not a function), or whatever a library that
  the adapter calls raises, by name (restify's \<open>AssertionError\<close>, say).
\<close>

datatype js_error = TypeError | Raised string

subsection \<open>ToString\<close>

definition digit_char :: "nat \<Rightarrow> char" where
  "digit_char d = ''0123456789'' ! d"

fun show_nat :: "nat \<Rightarrow> string" where
  "show_nat n = (if n < 10 then [digit_char n] else show_nat (n div 10) @ [digit_char (n mod 10)])"

declare show_nat.simps [simp del]

definition show_int :: "int \<Rightarrow> string" where
  "show_int i = (if i < 0 then CHR ''-'' # show_nat (nat (- i)) else show_nat (nat i))"

fun join_comma :: "string list \<Rightarrow> string" where
  "join_comma [] = []"
| "join_comma [s] = s"
| "join_comma (s # t # ss) = s @ '','' @ join_comma (t # ss)"

text \<open>
  String conversion as used by \<open>'/' + id\<close>, by \<open>'Invalid REST method: ' + restMethod\<close>,
  by the property key in \<open>client[restMethod]\<close> and by \<open>statusCode.toString()\<close>. It is
  the conversion of values that inherit \<open>toString\<close>: for an object with a property
  \<open>toString\<close> of its own, which as data is not a function, JavaScript throws a TypeError
  instead (see \<open>stringable\<close> below).
\<close>

fun to_string :: "jsval \<Rightarrow> string" where
  "to_string Undefined = ''undefined''"
| "to_string Null = ''null''"
| "to_string (Bool b) = (if b then ''true'' else ''false'')"
| "to_string (Num n) = show_int n"
| "to_string (Str s) = s"
| "to_string (Arr xs) = join_comma (map (\<lambda>x. if nullish x then [] else to_string x) xs)"
| "to_string (Obj kvs) = ''[object Object]''"

subsection \<open>Properties\<close>

definition get_own :: "obj \<Rightarrow> string \<Rightarrow> jsval" where
  "get_own kvs k = (case map_of kvs k of Some v \<Rightarrow> v | None \<Rightarrow> Undefined)"

text \<open>
  \<open>v.k\<close> for a receiver that is not \<open>undefined\<close> or \<open>null\<close>. Where the source reads
  a property of a value that may be \<open>undefined\<close> or \<open>null\<close> without a guard, the model
  tests \<open>nullish\<close> first and throws.
\<close>

fun get_prop :: "jsval \<Rightarrow> string \<Rightarrow> jsval" where
  "get_prop (Obj kvs) k = get_own kvs k"
| "get_prop v k = Undefined"

text \<open>\<open>_.has(object, key)\<close>: an own property, whatever its value.\<close>

fun has :: "jsval \<Rightarrow> string \<Rightarrow> bool" where
  "has (Obj kvs) k = (map_of kvs k \<noteq> None)"
| "has v k = False"

text \<open>\<open>o[k] = v\<close> on an object; on a primitive the assignment is dropped silently.\<close>

fun set_prop :: "jsval \<Rightarrow> string \<Rightarrow> jsval \<Rightarrow> jsval" where
  "set_prop (Obj kvs) k v = Obj (AList.update k v kvs)"
| "set_prop w k v = w"

text \<open>\<open>delete o[k]\<close>.\<close>

fun delete_prop :: "jsval \<Rightarrow> string \<Rightarrow> jsval" where
  "delete_prop (Obj kvs) k = Obj (AList.delete k kvs)"
| "delete_prop w k = w"

subsection \<open>lodash\<close>

text \<open>
  The lodash functions that \<open>request\<close> calls, on plain data. Where the versions of
  lodash differ on odd arguments (a string as source of \<open>_.extend\<close>, \<open>undefined\<close> as
  its destination), the model follows lodash 2.
\<close>

fun isPlainObject :: "jsval \<Rightarrow> bool" where
  "isPlainObject (Obj kvs) = True"
| "isPlainObject v = False"

definition assign :: "obj \<Rightarrow> obj \<Rightarrow> obj" where
  "assign dst src = foldl (\<lambda>acc (k, v). AList.update k v acc) dst src"

definition indexed :: "jsval list \<Rightarrow> obj" where
  "indexed xs = zip (map show_nat [0..<length xs]) xs"

text \<open>
  \<open>_.extend(object, source)\<close>: copies the own properties of the source onto the object,
  in place, and returns the object. An array source contributes its indices as keys; a
  primitive source contributes nothing; a destination that is \<open>undefined\<close> or \<open>null\<close>
  is returned as it is.
\<close>

fun extend_js :: "jsval \<Rightarrow> jsval \<Rightarrow> jsval" where
  "extend_js (Obj d) (Obj s) = Obj (assign d s)"
| "extend_js (Obj d) (Arr xs) = Obj (assign d (indexed xs))"
| "extend_js d s = d"

text \<open>
  \<open>_.size(collection)\<close>: the length of an array, a string or an object with a numeric
  \<open>length\<close> property, the number of own properties of any other object, 0 otherwise.
\<close>

fun size_js :: "jsval \<Rightarrow> nat" where
  "size_js (Arr xs) = length xs"
| "size_js (Str s) = length s"
| "size_js (Obj kvs) =
     (case map_of kvs ''length'' of
        Some (Num n) \<Rightarrow> if 0 \<le> n then nat n else length (remdups (map fst kvs))
      | _ \<Rightarrow> length (remdups (map fst kvs)))"
| "size_js v = 0"


text \<open>
  \<open>uri.replace(pattern, replacement)\<close> with a string pattern: the first occurrence only.
\<close>

fun replace_first :: "string \<Rightarrow> string \<Rightarrow> string \<Rightarrow> string" where
  "replace_first pat rep [] = (if pat = [] then rep else [])"
| "replace_first pat rep (c # cs) =
     (if take (length pat) (c # cs) = pat then rep @ drop (length pat) (c # cs)
      else c # replace_first pat rep cs)"

section \<open>The adapter's collaborators\<close>

text \<open>
  The configuration: its data properties (\<open>protocol\<close>, \<open>host\<close>, \<open>pathname\<close>,
  \<open>resource\<close>, \<open>action\<close>, \<open>query\<close>, \<open>methods\<close>, ...) and its function-valued
  properties, \<open>None\<close> where the property is missing or is not a function. The functions
  supplied by the user are taken to return without throwing and without changing their
  arguments.
\<close>

record config =
  props :: obj
  getPathname :: "(obj \<Rightarrow> jsval \<Rightarrow> jsval \<Rightarrow> jsval \<Rightarrow> jsval) option"
  beforeFormatResult :: "(jsval \<Rightarrow> jsval) option"
  afterFormatResult :: "(jsval \<Rightarrow> jsval) option"
  beforeFormatResults :: "(jsval list \<Rightarrow> jsval list) option"
  afterFormatResults :: "(jsval list \<Rightarrow> jsval list) option"

text \<open>The collection descriptor: \<open>_transformer.unserialize\<close> and \<open>_cast.run\<close>.\<close>

record collection =
  unserialize :: "jsval \<Rightarrow> jsval"
  cast_run :: "jsval \<Rightarrow> jsval"

text \<open>
  What a \<open>Resource\<close> holds and the libraries it calls:
  \<^item> which properties of the restify client are functions;
  \<^item> what a method of the client does when \<open>request\<close> calls it with a path and, possibly,
    a body: it returns (\<open>None\<close>; the completion handler runs later) or throws, as
    restify's JSON client does on a body that is not an object;
  \<^item> the client's \<open>url.href\<close>;
  \<^item> \<open>this.config\<close>;
  \<^item> \<open>this.collections\<close>, \<open>None\<close> when the \<open>Resource\<close> was constructed without
    collections (the constructor stores its second argument as it is);
  \<^item> \<open>pluralize\<close> of underscore.inflections;
  \<^item> \<open>url.format\<close> of Node, which returns a string or throws.
\<close>

record env =
  client_function :: "string \<Rightarrow> bool"
  client_call :: "string \<Rightarrow> string \<Rightarrow> jsval option \<Rightarrow> js_error option"
  client_href :: string
  this_config :: config
  collections :: "(string \<Rightarrow> collection option) option"
  pluralize :: "string \<Rightarrow> string"
  url_format :: "obj \<Rightarrow> js_error + string"

text \<open>
  Line 160, \<open>collection = this.collections[collectionName]\<close>, where \<open>this.collections\<close>
  exists: the descriptor, \<open>None\<close> for a name that is not registered.
\<close>

definition this_collections :: "env \<Rightarrow> string \<Rightarrow> collection option" where
  "this_collections env collectionName =
     (case collections env of None \<Rightarrow> None | Some registry \<Rightarrow> registry collectionName)"

text \<open>
  The cache engine, \<open>None\<close> when no cache is configured: \<open>get\<close>, \<open>set\<close> and
  \<open>del\<close> by key. It stores the arrays that \<open>find\<close> produced.
\<close>

type_synonym cache = "(string \<Rightarrow> jsval list option) option"

section \<open>Errors, callbacks and effects\<close>

text \<open>
  The two kinds of error object the adapter creates: \<open>new Error(message)\<close> and
  \<open>new RestError(message, meta)\<close>.
\<close>

datatype failure =
    Error string
  | RestError jsval jsval

text \<open>\<open>rest-error.js\<close>: the constructor defaults a falsy message and a falsy meta.\<close>

definition new_RestError :: "jsval \<Rightarrow> jsval \<Rightarrow> failure" where
  "new_RestError message meta =
     RestError (if truthy message then message else Str ''REST Error Message'')
               (if truthy meta then meta else Obj [])"


text \<open>
  The functions that \<open>request\<close> receives as \<open>callback\<close>: the caller's own, \<open>_.noop\<close>,
  and the closure that \<open>request\<close> hands to \<open>find\<close> for an update or destroy without an
  id, with the variables it captures (\<open>collectionName\<close>, \<open>methodName\<close>, \<open>callback\<close>,
  \<open>values\<close>).
\<close>

datatype cbk =
    Caller
  | Noop
  | FanOut string string cbk jsval

text \<open>
  The completion handler \<open>cb\<close> that \<open>request\<close> hands to the client, with the variables
  it captures: \<open>callback\<close>, \<open>methodName\<close>, \<open>collectionName\<close> (for \<open>collection\<close>),
  \<open>config\<close> and \<open>uri\<close>.
\<close>

datatype handler = Completion cbk string string config string

text \<open>
  What the adapter does to the outside, in order: a call of a client method with path,
  optional body and completion handler; a call of the caller's callback with
  \<open>(err, result)\<close>; a \<open>set\<close> or \<open>del\<close> on the cache engine.
\<close>

datatype event =
    HttpCall string string "jsval option" handler
  | Called "failure option" jsval
  | CacheSet string "jsval list"
  | CacheDel string

text \<open>
  A run: what was done, in order, and the exception that ended it, if one did. A client
  method that throws was called all the same: its call is in the trace.
\<close>

record run =
  trace :: "event list"
  thrown :: "js_error option"

definition returns :: "event list \<Rightarrow> run" where
  "returns es = \<lparr>trace = es, thrown = None\<rparr>"

definition throws :: "js_error \<Rightarrow> run" where
  "throws e = \<lparr>trace = [], thrown = Some e\<rparr>"

section \<open>Pathname and results\<close>

text \<open>\<open>Resource.getPathname\<close>, the pathname function the adapter provides.\<close>

definition Resource_getPathname :: "obj \<Rightarrow> jsval \<Rightarrow> jsval \<Rightarrow> jsval \<Rightarrow> jsval" where
  "Resource_getPathname config method values options =
     Str (to_string (get_own config ''pathname'') @ ''/'' @ to_string (get_own config ''resource'')
          @ (if truthy (get_own config ''action'') then ''/'' @ to_string (get_own config ''action'')
             else []))"

text \<open>\<open>Resource.formatResult\<close>; reading \<open>collection._transformer\<close> of an unknown collection throws.\<close>

definition formatResult :: "jsval \<Rightarrow> collection option \<Rightarrow> config \<Rightarrow> js_error + jsval" where
  "formatResult result collection config =
     (let result1 = (case beforeFormatResult config of Some f \<Rightarrow> f result | None \<Rightarrow> result)
      in case collection of
           None \<Rightarrow> Inl TypeError
         | Some c \<Rightarrow>
             (let result2 = cast_run c (unserialize c result1)
              in Inr (case afterFormatResult config of Some f \<Rightarrow> f result2 | None \<Rightarrow> result2)))"

fun map_results :: "(jsval \<Rightarrow> js_error + jsval) \<Rightarrow> jsval list \<Rightarrow> js_error + jsval list" where
  "map_results f [] = Inr []"
| "map_results f (x # xs) =
     (case f x of
        Inl e \<Rightarrow> Inl e
      | Inr y \<Rightarrow> (case map_results f xs of Inl e \<Rightarrow> Inl e | Inr ys \<Rightarrow> Inr (y # ys)))"

text \<open>\<open>Resource.formatResults\<close>.\<close>

definition formatResults :: "jsval list \<Rightarrow> collection option \<Rightarrow> config \<Rightarrow> js_error + jsval list" where
  "formatResults results collection config =
     (let results1 = (case beforeFormatResults config of Some f \<Rightarrow> f results | None \<Rightarrow> results)
      in case map_results (\<lambda>result. formatResult result collection config) results1 of
           Inl e \<Rightarrow> Inl e
         | Inr results2 \<Rightarrow>
             Inr (case afterFormatResults config of Some f \<Rightarrow> f results2 | None \<Rightarrow> results2))"

text \<open>\<open>Resource.getResultsAsCollection\<close>; \<open>data.objects\<close> throws when there is no body.\<close>

definition getResultsAsCollection :: "jsval \<Rightarrow> collection option \<Rightarrow> config \<Rightarrow> js_error + jsval list" where
  "getResultsAsCollection data collection config =
     (if nullish data then Inl TypeError
      else
        (let d = (if truthy (get_prop data ''objects'') then get_prop data ''objects''
                  else if truthy (get_prop data ''results'') then get_prop data ''results''
                  else data);
             a = (case d of Arr xs \<Rightarrow> xs | _ \<Rightarrow> [d])
         in formatResults a collection config))"

section \<open>The request pipeline\<close>

text \<open>
  Lines 168-175 of \<open>request\<close>: every own key of the configuration that the caller's
  options have too takes the option's value. Options are data, so a function-valued
  property that is overridden is a function no longer.
\<close>

definition override_config :: "config \<Rightarrow> jsval \<Rightarrow> config" where
  "override_config config options =
     (if truthy options \<and> isPlainObject options then
        \<lparr>props = map (\<lambda>(key, val). (key, if has options key then get_prop options key else val))
                   (props config),
         getPathname = (if has options ''getPathname'' then None else getPathname config),
         beforeFormatResult =
           (if has options ''beforeFormatResult'' then None else beforeFormatResult config),
         afterFormatResult =
           (if has options ''afterFormatResult'' then None else afterFormatResult config),
         beforeFormatResults =
           (if has options ''beforeFormatResults'' then None else beforeFormatResults config),
         afterFormatResults =
           (if has options ''afterFormatResults'' then None else afterFormatResults config)\<rparr>
      else config)"

text \<open>
  The override stores \<open>options.query\<close> itself in the configuration, not a copy: from then
  on \<open>config.query\<close> and \<open>options.query\<close> are one object, and what \<open>request\<close> writes
  to the one shows in the other. (Of the objects shared in this way \<open>request\<close> changes
  only the query and the selector, and after the change \<open>url.format\<close> reads only the
  query.)
\<close>

definition query_shared :: "config \<Rightarrow> jsval \<Rightarrow> bool" where
  "query_shared config options =
     (truthy options \<and> isPlainObject options \<and> has options ''query''
      \<and> map_of (props config) ''query'' \<noteq> None)"

text \<open>
  Lines 213-217: each of the keys that is not \<open>undefined\<close> in the options is written to
  \<open>config.query\<close>; the write throws when \<open>config.query\<close> is \<open>undefined\<close> or \<open>null\<close>.
\<close>

fun copy_keys :: "string list \<Rightarrow> jsval \<Rightarrow> jsval \<Rightarrow> js_error + jsval" where
  "copy_keys [] options query = Inr query"
| "copy_keys (key # keys) options query =
     (if get_prop options key \<noteq> Undefined then
        (if nullish query then Inl TypeError
         else copy_keys keys options (set_prop query key (get_prop options key)))
      else copy_keys keys options query)"

text \<open>\<open>config.query\<close> after it was changed in place (only an object can be).\<close>

definition with_query :: "config \<Rightarrow> jsval \<Rightarrow> config" where
  "with_query config q =
     (if isPlainObject q then config\<lparr>props := AList.update ''query'' q (props config)\<rparr>
      else config)"

text \<open>
  Lines 185-225: what becomes of the selector \<open>options.where\<close>. The result is the fan-out
  (line 190), an exception with the caller's options as they are when it is thrown, or the
  pathname, the configuration, \<open>opt\<close> and the caller's options as these lines leave them.
\<close>

datatype selection =
    Fan_out
  | Select_thrown js_error jsval
  | Selected jsval config jsval jsval

definition select :: "bool \<Rightarrow> jsval \<Rightarrow> string \<Rightarrow> jsval \<Rightarrow> config \<Rightarrow> jsval \<Rightarrow> selection" where
  "select shared restMethod methodName pathname config options =
     (if truthy options \<and> truthy (get_prop options ''where'') then
        (let wh = get_prop options ''where'';
             i = get_prop wh ''id''
         in if \<not> truthy i \<and> (methodName = ''destroy'' \<or> methodName = ''update'') then Fan_out
            else
              (let pathname1 = (if truthy i then Str (to_string pathname @ ''/'' @ to_string i)
                                else pathname);
                   options1 = (if truthy i then set_prop options ''where'' (delete_prop wh ''id'')
                               else options);
                   wh1 = get_prop options1 ''where''
               in if restMethod = Str ''get'' then
                    (case copy_keys [''skip'', ''limit'', ''offset''] options1
                            (extend_js (get_own (props config) ''query'')
                                    (if truthy wh1 then wh1 else Obj [])) of
                       Inl e \<Rightarrow> Select_thrown e options1
                     | Inr q \<Rightarrow>
                         Selected pathname1 (with_query config q) Undefined
                           (if shared then set_prop options1 ''query'' q else options1))
                  else if size_js wh1 \<noteq> 0 then Selected pathname1 config wh1 options1
                  else Selected pathname1 config Undefined (delete_prop options1 ''where'')))
      else Selected pathname config Undefined options)"

text \<open>The properties of its argument that \<open>url.format\<close> reads.\<close>

definition url_keys :: "string list" where
  "url_keys = [''protocol'', ''slashes'', ''auth'', ''host'', ''hostname'', ''port'',
               ''pathname'', ''search'', ''query'', ''hash'']"

definition url_fields :: "obj \<Rightarrow> obj" where
  "url_fields kvs = filter (\<lambda>(k, v). k \<in> set url_keys) kvs"

text \<open>
  Lines 150-239 of \<open>request\<close>, everything before the cache is consulted. One of these
  happens:
  \<^item> a line of \<open>request\<close> itself throws (lines 159, 160, 183, 215);
  \<^item> the call fails with the message of an invalid method;
  \<^item> it fans out;
  \<^item> \<open>url.format\<close> throws on the configuration of the call (line 239);
  \<^item> the call is routed: verb, configuration, URI and \<open>opt\<close> are known.

  With an exception come the caller's options as they are when it is thrown, with a
  routed call the options as \<open>request\<close> leaves them.
\<close>

record routed =
  verb :: jsval
  conf :: config
  uri :: string
  opt :: jsval
  opts :: jsval

datatype route =
    Thrown js_error jsval
  | Invalid string
  | Enumerate
  | Unformatted js_error config jsval
  | Routed routed

text \<open>Line 159: \<open>restMethod = config.methods[methodName]\<close>.\<close>

definition rest_method :: "env \<Rightarrow> string \<Rightarrow> jsval" where
  "rest_method env methodName = get_prop (get_own (props (this_config env)) ''methods'') methodName"

text \<open>
  Lines 168-181: the configuration of the call, after the overrides from the options and
  the pluralized collection name as the resource when none is configured.
\<close>

definition resolve_config :: "env \<Rightarrow> string \<Rightarrow> jsval \<Rightarrow> config" where
  "resolve_config env collectionName options =
     (let config1 = override_config (this_config env) options
      in if truthy (get_own (props config1) ''resource'') then config1
         else config1\<lparr>props := AList.update ''resource''
                (Str (pluralize env collectionName)) (props config1)\<rparr>)"

definition route :: "env \<Rightarrow> string \<Rightarrow> string \<Rightarrow> jsval \<Rightarrow> jsval \<Rightarrow> route" where
  "route env collectionName methodName options values =
     (if nullish (get_own (props (this_config env)) ''methods'') \<or> collections env = None
      then Thrown TypeError options
      else
        (let restMethod = rest_method env methodName
         in if \<not> client_function env (to_string restMethod)
            then Invalid (''Invalid REST method: '' @ to_string restMethod)
            else
              (let config2 = resolve_config env collectionName options
               in case getPathname config2 of
                    None \<Rightarrow> Thrown TypeError options
                  | Some gp \<Rightarrow>
                      (case select (query_shared (this_config env) options) restMethod methodName
                              (gp (props config2) restMethod values options) config2 options of
                         Fan_out \<Rightarrow> Enumerate
                       | Select_thrown e options1 \<Rightarrow> Thrown e options1
                       | Selected pathname config3 opt0 options1 \<Rightarrow>
                           (let merged = (\<not> truthy opt0 \<and> truthy values \<and> truthy options1);
                                opt1 = (if \<not> truthy opt0 \<and> truthy values
                                        then (if truthy options1 then extend_js options1 values
                                              else values)
                                        else opt0);
                                options2 = (if merged then extend_js options1 values else options1);
                                config4 = config3\<lparr>props :=
                                  AList.update ''pathname'' pathname (props config3)\<rparr>
                            in case url_format env (url_fields (props config4)) of
                                 Inl e \<Rightarrow> Unformatted e config4 options2
                               | Inr u \<Rightarrow>
                                   Routed \<lparr>verb = restMethod, conf = config4, uri = u,
                                           opt = opt1, opts = options2\<rparr>)))))"

text \<open>Lines 241-246: the cache is read for \<open>find\<close> only.\<close>

definition cache_get :: "cache \<Rightarrow> string \<Rightarrow> string \<Rightarrow> jsval list option" where
  "cache_get cache methodName u =
     (if methodName = ''find'' then (case cache of None \<Rightarrow> None | Some c \<Rightarrow> c u) else None)"

text \<open>Lines 250-282: the call of the client method.\<close>

definition http_call :: "env \<Rightarrow> string \<Rightarrow> string \<Rightarrow> cbk \<Rightarrow> routed \<Rightarrow> event" where
  "http_call env collectionName methodName callback r =
     HttpCall (to_string (verb r)) (replace_first (client_href env) ''/'' (uri r))
       (if truthy (opt r) then Some (opt r) else None)
       (Completion callback methodName collectionName (conf r) (uri r))"

text \<open>
  Lines 278-282: \<open>request\<close> calls the method and returns, or the method throws and so
  does \<open>request\<close>.
\<close>

definition call_client :: "env \<Rightarrow> string \<Rightarrow> string \<Rightarrow> cbk \<Rightarrow> routed \<Rightarrow> run" where
  "call_client env collectionName methodName callback r =
     \<lparr>trace = [http_call env collectionName methodName callback r],
      thrown = client_call env (to_string (verb r))
                 (replace_first (client_href env) ''/'' (uri r))
                 (if truthy (opt r) then Some (opt r) else None)\<rparr>"

text \<open>The options that the fan-out closure builds for a record (lines 197-201).\<close>

definition id_options :: "jsval \<Rightarrow> jsval" where
  "id_options result = Obj [(''where'', Obj [(''id'', get_prop result ''id'')])]"

text \<open>
  \<open>request\<close>, the call of a callback, and the loop of the fan-out closure over the records
  found. They call each other, and nothing bounds the nesting: a record without a usable id
  sends its sub-request into the fan-out again. The first argument bounds the depth of
  nested \<open>request\<close> calls; \<open>None\<close> is a run that exceeds it. \<open>request\<close> returns the
  caller's options as the call leaves them, and what the call did.

  A callback of \<open>find\<close> receives an array: the one the cache held, or the one
  \<open>formatResults\<close> built.
\<close>

function (sequential) request :: "nat \<Rightarrow> env \<Rightarrow> cache \<Rightarrow> string \<Rightarrow> string \<Rightarrow> cbk \<Rightarrow> jsval \<Rightarrow> jsval \<Rightarrow> (jsval \<times> run) option"
and invoke :: "nat \<Rightarrow> env \<Rightarrow> cache \<Rightarrow> cbk \<Rightarrow> failure option \<Rightarrow> jsval \<Rightarrow> run option"
and each_result :: "nat \<Rightarrow> env \<Rightarrow> cache \<Rightarrow> string \<Rightarrow> string \<Rightarrow> cbk \<Rightarrow> jsval \<Rightarrow> nat \<Rightarrow> nat \<Rightarrow> jsval list \<Rightarrow> run option"
where
  "request 0 env cache collectionName methodName callback options values = None"
| "request (Suc n) env cache collectionName methodName callback options values =
     (case route env collectionName methodName options values of
        Thrown e options1 \<Rightarrow> Some (options1, throws e)
      | Invalid message \<Rightarrow>
          map_option (Pair options) (invoke n env cache callback (Some (Error message)) Undefined)
      | Enumerate \<Rightarrow>
          request n env cache collectionName ''find''
            (FanOut collectionName methodName callback values) options Undefined
      | Unformatted e config options1 \<Rightarrow> Some (options1, throws e)
      | Routed r \<Rightarrow>
          (case cache_get cache methodName (uri r) of
             Some hit \<Rightarrow> map_option (Pair (opts r)) (invoke n env cache callback None (Arr hit))
           | None \<Rightarrow> Some (opts r, call_client env collectionName methodName callback r)))"
| "invoke n env cache Caller err result = Some (returns [Called err result])"
| "invoke n env cache Noop err result = Some (returns [])"
| "invoke 0 env cache (FanOut collectionName methodName callback values) err result = None"
| "invoke (Suc n) env cache (FanOut collectionName methodName callback values) err result =
     (case err of
        Some e \<Rightarrow> invoke n env cache callback (Some e) Undefined
      | None \<Rightarrow>
          (case result of
             Arr results \<Rightarrow>
               each_result n env cache collectionName methodName callback values 0
                 (length results) results
           | _ \<Rightarrow> Some (returns [])))"
| "each_result n env cache collectionName methodName callback values i len [] =
     Some (returns [])"
| "each_result n env cache collectionName methodName callback values i len (result # rest) =
     (if nullish result then Some (throws TypeError)
      else
        (case request n env cache collectionName methodName
                (if i + 1 = len then callback else Noop) (id_options result) values of
           None \<Rightarrow> None
         | Some (options1, r1) \<Rightarrow>
             (case thrown r1 of
                Some e \<Rightarrow> Some r1
              | None \<Rightarrow>
                  (case each_result n env cache collectionName methodName callback values
                          (i + 1) len rest of
                     None \<Rightarrow> None
                   | Some r2 \<Rightarrow> Some \<lparr>trace = trace r1 @ trace r2, thrown = thrown r2\<rparr>))))"

  by pat_completeness auto

termination
  by (relation "inv_image (less_than <*lex*> less_than)
        (\<lambda>x. case x of
            Inl (n, env, cache, cn, mn, cb, options, values) \<Rightarrow> (n, 0)
          | Inr (Inl (n, env, cache, cb, err, result)) \<Rightarrow> (n, 0)
          | Inr (Inr (n, env, cache, cn, mn, cb, values, i, len, results)) \<Rightarrow>
              (n, Suc (length results)))") auto

text \<open>The public operations (lines 293-330).\<close>

definition find_js :: "nat \<Rightarrow> env \<Rightarrow> cache \<Rightarrow> string \<Rightarrow> jsval \<Rightarrow> cbk \<Rightarrow> (jsval \<times> run) option" where
  "find_js n env cache collection options callback =
     request n env cache collection ''find'' callback options Undefined"

definition create :: "nat \<Rightarrow> env \<Rightarrow> cache \<Rightarrow> string \<Rightarrow> jsval \<Rightarrow> cbk \<Rightarrow> (jsval \<times> run) option" where
  "create n env cache collection values callback =
     request n env cache collection ''create'' callback Null values"

definition update :: "nat \<Rightarrow> env \<Rightarrow> cache \<Rightarrow> string \<Rightarrow> jsval \<Rightarrow> jsval \<Rightarrow> cbk \<Rightarrow> (jsval \<times> run) option" where
  "update n env cache collection options values callback =
     request n env cache collection ''update'' callback options values"

definition destroy :: "nat \<Rightarrow> env \<Rightarrow> cache \<Rightarrow> string \<Rightarrow> jsval \<Rightarrow> cbk \<Rightarrow> (jsval \<times> run) option" where
  "destroy n env cache collection options callback =
     request n env cache collection ''destroy'' callback options Undefined"

section \<open>The completion handler\<close>

definition is_digit :: "char \<Rightarrow> bool" where
  "is_digit c = (c \<in> set ''0123456789'')"

text \<open>The regular expression \<open>/^(4|5)\d+$/\<close>.\<close>

fun matches_4_or_5 :: "string \<Rightarrow> bool" where
  "matches_4_or_5 [] = False"
| "matches_4_or_5 (c # cs) = ((c = CHR ''4'' \<or> c = CHR ''5'') \<and> cs \<noteq> [] \<and> list_all is_digit cs)"

text \<open>
  Line 256, \<open>res && /^(4|5)\d+$/.test(res.statusCode.toString())\<close>, as the condition of
  line 258 reads it; \<open>toString\<close> of a missing status code throws.
\<close>

definition responseErrorCode :: "jsval \<Rightarrow> js_error + bool" where
  "responseErrorCode res =
     (if \<not> truthy res then Inr False
      else if nullish (get_prop res ''statusCode'') then Inl TypeError
      else Inr (matches_4_or_5 (to_string (get_prop res ''statusCode''))))"

text \<open>The condition of line 258.\<close>

definition failed :: "jsval \<Rightarrow> jsval \<Rightarrow> bool \<Rightarrow> bool" where
  "failed err res code = (truthy err \<and> (res = Undefined \<or> res = Null \<or> code))"

definition cache_set :: "cache \<Rightarrow> string \<Rightarrow> jsval list \<Rightarrow> cache" where
  "cache_set cache u r = (case cache of None \<Rightarrow> None | Some c \<Rightarrow> Some (c(u \<mapsto> r)))"

definition cache_del :: "cache \<Rightarrow> string \<Rightarrow> cache" where
  "cache_del cache u = (case cache of None \<Rightarrow> None | Some c \<Rightarrow> Some (c(u := None)))"

definition after :: "event list \<Rightarrow> run \<Rightarrow> run" where
  "after es r = r\<lparr>trace := es @ trace r\<rparr>"

text \<open>
  The completion handler \<open>cb\<close> (lines 253-275). \<open>request\<close> only hands it to the
  client; the client calls it later, with \<open>(err, req, res, data)\<close> and with the cache as
  it is by then. The result is the cache as the handler leaves it, and what the handler
  did.
\<close>

definition completion :: "nat \<Rightarrow> env \<Rightarrow> cache \<Rightarrow> handler \<Rightarrow> jsval \<Rightarrow> jsval \<Rightarrow> jsval \<Rightarrow> jsval \<Rightarrow> (cache \<times> run) option" where
  "completion n env cache h err req res data =
     (case h of Completion callback methodName collectionName config u \<Rightarrow>
        (case responseErrorCode res of
           Inl e \<Rightarrow> Some (cache, throws e)
         | Inr code \<Rightarrow>
             if failed err res code then
               map_option (Pair cache)
                 (invoke n env cache callback
                    (Some (new_RestError (get_prop err ''message'')
                             (Obj [(''req'', req), (''res'', res), (''data'', data)])))
                    Undefined)
             else if methodName = ''find'' then
               (case getResultsAsCollection data (this_collections env collectionName) config of
                  Inl e \<Rightarrow> Some (cache, throws e)
                | Inr r \<Rightarrow>
                    map_option (\<lambda>rn. (cache_set cache u r,
                                       after (if cache = None then [] else [CacheSet u r]) rn))
                      (invoke n env (cache_set cache u r) callback None (Arr r)))
             else
               (case formatResult data (this_collections env collectionName) config of
                  Inl e \<Rightarrow> Some (cache, throws e)
                | Inr r \<Rightarrow>
                    map_option (\<lambda>rn. (cache_del cache u,
                                       after (if cache = None then [] else [CacheDel u]) rn))
                      (invoke n env (cache_del cache u) callback None r))))"

section \<open>An example adapter\<close>

text \<open>
  A concrete adapter for the examples below: a JSON client on \<open>http://localhost/\<close>
  that, as restify's does, rejects a body that is not an object; the usual method map;
  \<open>Resource.getPathname\<close> as pathname function; one collection \<open>widget\<close>; a
  pluralizer that appends \<open>s\<close>; and a URL formatter that writes protocol, host,
  pathname and the query parameters.
\<close>

definition example_query_string :: "jsval \<Rightarrow> string" where
  "example_query_string q =
     (case q of
        Obj [] \<Rightarrow> []
      | Obj kvs \<Rightarrow> CHR ''?'' # concat (map (\<lambda>(k, v). k @ ''='' @ to_string v @ ''&'') kvs)
      | _ \<Rightarrow> [])"

definition example_url_format :: "obj \<Rightarrow> string" where
  "example_url_format u =
     to_string (get_own u ''protocol'') @ ''://'' @ to_string (get_own u ''host'')
     @ to_string (get_own u ''pathname'') @ example_query_string (get_own u ''query'')"

definition example_methods :: jsval where
  "example_methods = Obj [(''create'', Str ''post''), (''find'', Str ''get''),
                          (''update'', Str ''put''), (''destroy'', Str ''del'')]"

definition example_config :: config where
  "example_config =
     \<lparr>props = [(''protocol'', Str ''http''), (''host'', Str ''localhost''),
               (''pathname'', Str ''/api''), (''resource'', Null), (''action'', Null),
               (''query'', Obj []), (''methods'', example_methods)],
      getPathname = Some Resource_getPathname,
      beforeFormatResult = None, afterFormatResult = None,
      beforeFormatResults = None, afterFormatResults = None\<rparr>"

text \<open>The methods of the example's client: a body, when they get one, must be an object.\<close>

definition example_client_call :: "string \<Rightarrow> string \<Rightarrow> jsval option \<Rightarrow> js_error option" where
  "example_client_call method path body =
     (case body of
        None \<Rightarrow> None
      | Some (Obj kvs) \<Rightarrow> None
      | Some (Arr xs) \<Rightarrow> None
      | Some v \<Rightarrow> Some (Raised ''AssertionError''))"

definition example_env :: env where
  "example_env =
     \<lparr>client_function = (\<lambda>name. name \<in> set [''get'', ''post'', ''put'', ''del'', ''head'', ''patch'']),
      client_call = example_client_call,
      client_href = ''http://localhost/'',
      this_config = example_config,
      collections =
        Some (\<lambda>name. if name = ''widget''
                      then Some \<lparr>unserialize = (\<lambda>v. v), cast_run = (\<lambda>v. v)\<rparr>
                      else None),
      pluralize = (\<lambda>name. name @ ''s''),
      url_format = (\<lambda>u. Inr (example_url_format u))\<rparr>"

section \<open>Observations and example inputs\<close>

text \<open>The client calls in a trace: verb, path and body.\<close>

fun calls :: "event list \<Rightarrow> (string \<times> string \<times> jsval option) list" where
  "calls [] = []"
| "calls (HttpCall v p b h # es) = (v, p, b) # calls es"
| "calls (e # es) = calls es"

text \<open>A call of the caller's callback.\<close>

fun is_called :: "event \<Rightarrow> bool" where
  "is_called (Called e r) = True"
| "is_called ev = False"


text \<open>A call of the caller's callback with an error.\<close>

fun error_call :: "event \<Rightarrow> bool" where
  "error_call (Called (Some e) r) = True"
| "error_call ev = False"

text \<open>
  A response object of the HTTP client: it carries a three-digit status code. Its status is
  in the 4xx/5xx range when the code is from 400 to 599.
\<close>

definition http_response :: "jsval \<Rightarrow> bool" where
  "http_response res =
     (case res of
        Obj kvs \<Rightarrow>
          (case get_own kvs ''statusCode'' of Num s \<Rightarrow> 100 \<le> s \<and> s \<le> 999 | _ \<Rightarrow> False)
      | _ \<Rightarrow> False)"

definition status_4xx_5xx :: "jsval \<Rightarrow> bool" where
  "status_4xx_5xx res =
     (case get_prop res ''statusCode'' of Num s \<Rightarrow> 400 \<le> s \<and> s \<le> 599 | _ \<Rightarrow> False)"


text \<open>The options \<open>{where: {id: 7}}\<close>, the route of a \<open>find\<close> with them, a cache that holds its URI.\<close>

definition where_id_7 :: jsval where
  "where_id_7 = Obj [(''where'', Obj [(''id'', Num 7)])]"

definition routed_find_7 :: routed where
  "routed_find_7 =
     \<lparr>verb = Str ''get'',
      conf = example_config\<lparr>props :=
        [(''protocol'', Str ''http''), (''host'', Str ''localhost''),
         (''pathname'', Str ''/api/widgets/7''), (''resource'', Str ''widgets''),
         (''action'', Null), (''query'', Obj []), (''methods'', example_methods)]\<rparr>,
      uri = ''http://localhost/api/widgets/7'',
      opt = Undefined,
      opts = Obj [(''where'', Obj [])]\<rparr>"

definition example_cache :: "string \<Rightarrow> jsval list option" where
  "example_cache =
     (\<lambda>u. if u = ''http://localhost/api/widgets/7'' then Some [Obj [(''id'', Num 7)]] else None)"

text \<open>Responses and a transport error.\<close>

definition response_404 :: jsval where
  "response_404 = Obj [(''statusCode'', Num 404)]"

definition response_200 :: jsval where
  "response_200 = Obj [(''statusCode'', Num 200)]"

definition not_found :: jsval where
  "not_found = Obj [(''message'', Str ''Not Found'')]"

text \<open>
  The selector after lines 186-189: a truthy \<open>id\<close> is deleted from it.
\<close>

definition strip_id :: "jsval \<Rightarrow> jsval" where
  "strip_id wh = (if truthy (get_prop wh ''id'') then delete_prop wh ''id'' else wh)"

text \<open>
  The values \<open>{price: 5}\<close>, the options \<open>{where: {id: 7, color: 'red'}}\<close>, and the
  routes of an \<open>update\<close> with them.
\<close>

definition price_5 :: jsval where
  "price_5 = Obj [(''price'', Num 5)]"

definition where_id_7_red :: jsval where
  "where_id_7_red = Obj [(''where'', Obj [(''id'', Num 7), (''color'', Str ''red'')])]"

definition routed_update_7 :: routed where
  "routed_update_7 =
     \<lparr>verb = Str ''put'',
      conf = example_config\<lparr>props :=
        [(''protocol'', Str ''http''), (''host'', Str ''localhost''),
         (''pathname'', Str ''/api/widgets/7''), (''resource'', Str ''widgets''),
         (''action'', Null), (''query'', Obj []), (''methods'', example_methods)]\<rparr>,
      uri = ''http://localhost/api/widgets/7'',
      opt = Obj [(''price'', Num 5)],
      opts = Obj [(''price'', Num 5)]\<rparr>"

definition routed_update_7_red :: routed where
  "routed_update_7_red =
     \<lparr>verb = Str ''put'',
      conf = example_config\<lparr>props :=
        [(''protocol'', Str ''http''), (''host'', Str ''localhost''),
         (''pathname'', Str ''/api/widgets/7''), (''resource'', Str ''widgets''),
         (''action'', Null), (''query'', Obj []), (''methods'', example_methods)]\<rparr>,
      uri = ''http://localhost/api/widgets/7'',
      opt = Obj [(''color'', Str ''red'')],
      opts = Obj [(''where'', Obj [(''color'', Str ''red'')])]\<rparr>"


text \<open>The options \<open>{where: {id: 0}}\<close>.\<close>

definition where_id_0 :: jsval where
  "where_id_0 = Obj [(''where'', Obj [(''id'', Num 0)])]"

text \<open>
  The options \<open>{limit: 3}\<close> and \<open>{where: {color: 'red'}, limit: 3}\<close>, and the route of
  a \<open>find\<close> with the latter.
\<close>

definition limit_3 :: jsval where
  "limit_3 = Obj [(''limit'', Num 3)]"

definition where_red_limit_3 :: jsval where
  "where_red_limit_3 = Obj [(''where'', Obj [(''color'', Str ''red'')]), (''limit'', Num 3)]"

definition routed_find_red :: routed where
  "routed_find_red =
     \<lparr>verb = Str ''get'',
      conf = example_config\<lparr>props :=
        [(''protocol'', Str ''http''), (''host'', Str ''localhost''),
         (''pathname'', Str ''/api/widgets''), (''resource'', Str ''widgets''),
         (''action'', Null), (''query'', Obj [(''color'', Str ''red''), (''limit'', Num 3)]),
         (''methods'', example_methods)]\<rparr>,
      uri = ''http://localhost/api/widgets?color=red&limit=3&'',
      opt = Undefined,
      opts = where_red_limit_3\<rparr>"

text \<open>
  The options \<open>{where: {color: 'red'}}\<close>, two records that match, and the example
  adapter without a \<open>getPathname\<close> function.
\<close>

definition where_red :: jsval where
  "where_red = Obj [(''where'', Obj [(''color'', Str ''red'')])]"

definition two_records :: "jsval list" where
  "two_records = [Obj [(''id'', Num 1), (''color'', Str ''red'')],
                  Obj [(''id'', Num 2), (''color'', Str ''red'')]]"

definition no_pathname_env :: env where
  "no_pathname_env = example_env\<lparr>this_config := example_config\<lparr>getPathname := None\<rparr>\<rparr>"

text \<open>A response object without a status code.\<close>

definition response_bare :: jsval where
  "response_bare = Obj []"

text \<open>
  The values that JavaScript converts to a string without a TypeError, in \<open>'/' + id\<close>,
  \<open>client[restMethod]\<close> and \<open>statusCode.toString()\<close>: every primitive, an object
  without a \<open>toString\<close> property of its own, an array of such values.
\<close>

fun stringable :: "jsval \<Rightarrow> bool" where
  "stringable (Obj kvs) = (map_of kvs ''toString'' = None)"
| "stringable (Arr xs) = list_all stringable xs"
| "stringable v = True"

text \<open>
  The example adapter without \<open>this.collections\<close>, and without a configured query.
  The options \<open>{where: {id: 7}, limit: 3}\<close>.
\<close>

definition no_collections_env :: env where
  "no_collections_env = example_env\<lparr>collections := None\<rparr>"

definition no_query_env :: env where
  "no_query_env = example_env\<lparr>this_config := example_config\<lparr>props :=
     [(''protocol'', Str ''http''), (''host'', Str ''localhost''),
      (''pathname'', Str ''/api''), (''resource'', Null), (''action'', Null),
      (''methods'', example_methods)]\<rparr>\<rparr>"

definition where_id_7_limit_3 :: jsval where
  "where_id_7_limit_3 = Obj [(''where'', Obj [(''id'', Num 7)]), (''limit'', Num 3)]"

text \<open>A cache that answers every \<open>find\<close> with the two records.\<close>

definition full_cache :: "string \<Rightarrow> jsval list option" where
  "full_cache = (\<lambda>u. Some two_records)"

text \<open>
  The values \<open>{id: 7, price: 5}\<close>, and the example adapter with \<open>limit=5\<close> in its
  configured query.
\<close>

definition id_7_price_5 :: jsval where
  "id_7_price_5 = Obj [(''id'', Num 7), (''price'', Num 5)]"

definition paged_env :: env where
  "paged_env = example_env\<lparr>this_config := example_config\<lparr>props :=
     [(''protocol'', Str ''http''), (''host'', Str ''localhost''),
      (''pathname'', Str ''/api''), (''resource'', Null), (''action'', Null),
      (''query'', Obj [(''limit'', Num 5)]), (''methods'', example_methods)]\<rparr>\<rparr>"

section \<open>Evaluation\<close>

lemmas pipeline_defs = route_def rest_method_def resolve_config_def override_config_def
  query_shared_def select_def with_query_def url_fields_def url_keys_def get_own_def
  cache_get_def http_call_def call_client_def this_collections_def id_options_def assign_def
  Let_def

lemmas example_defs = example_env_def example_client_call_def example_config_def
  example_methods_def
  example_url_format_def example_query_string_def Resource_getPathname_def

lemma show_nat_digit: "n < 10 \<Longrightarrow> show_nat n = [digit_char n]"
  by (subst show_nat.simps) simp

lemmas eval_defs = pipeline_defs example_defs show_int_def show_nat_digit digit_char_def

lemma route_find_7:
  "route example_env ''widget'' ''find'' where_id_7 Undefined = Routed routed_find_7"
  by (simp add: pipeline_defs example_defs where_id_7_def routed_find_7_def show_int_def
        show_nat_digit digit_char_def)

lemma route_update_7_red:
  "route example_env ''widget'' ''update'' where_id_7_red price_5 = Routed routed_update_7_red"
  by (simp add: eval_defs where_id_7_red_def routed_update_7_red_def price_5_def)

lemma route_update_7:
  "route example_env ''widget'' ''update'' where_id_7 price_5 = Routed routed_update_7"
  by (simp add: eval_defs where_id_7_def routed_update_7_def price_5_def)

section \<open>Routing\<close>

text \<open>What a routed call tells about the steps of \<open>route\<close>.\<close>

lemma route_Routed_cases:
  assumes "route env collection methodName options values = Routed r"
  obtains gp pathname config3 opt0 options1 where
    "\<not> nullish (get_own (props (this_config env)) ''methods'')"
    "collections env \<noteq> None"
    "client_function env (to_string (rest_method env methodName))"
    "getPathname (resolve_config env collection options) = Some gp"
    "select (query_shared (this_config env) options) (rest_method env methodName) methodName
       (gp (props (resolve_config env collection options)) (rest_method env methodName)
          values options)
       (resolve_config env collection options) options
     = Selected pathname config3 opt0 options1"
    "verb r = rest_method env methodName"
    "conf r = config3\<lparr>props := AList.update ''pathname'' pathname (props config3)\<rparr>"
    "url_format env (url_fields (AList.update ''pathname'' pathname (props config3)))
     = Inr (uri r)"
    "opt r = (if \<not> truthy opt0 \<and> truthy values
              then (if truthy options1 then extend_js options1 values else values)
              else opt0)"
    "opts r = (if \<not> truthy opt0 \<and> truthy values \<and> truthy options1
               then extend_js options1 values else options1)"
  using assms
  by (auto simp: route_def Let_def split: if_splits option.splits selection.splits sum.splits)

lemma get_prop_set_prop_same:
  "isPlainObject v \<Longrightarrow> get_prop (set_prop v k x) k = x"
  by (cases v) (simp_all add: get_own_def update_conv')

lemma truthy_where_Obj: "truthy (get_prop v k) \<Longrightarrow> isPlainObject v"
  by (cases v) simp_all

lemma truthy_strip_id: "truthy wh \<Longrightarrow> truthy (strip_id wh)"
  by (cases wh) (simp_all add: strip_id_def)

section \<open>Invalid REST method\<close>





section \<open>Classification of responses\<close>

lemma digit_cases: "d < 10 \<Longrightarrow> d \<in> {0, 1, 2, 3, 4, 5, 6, 7, 8, 9::nat}"
  by auto

lemma is_digit_digit_char: "d < 10 \<Longrightarrow> is_digit (digit_char d)"
  by (drule digit_cases) (auto simp: is_digit_def digit_char_def)

lemma digit_char_4: "d < 10 \<Longrightarrow> (digit_char d = CHR ''4'') = (d = 4)"
  by (drule digit_cases) (auto simp: digit_char_def)

lemma digit_char_5: "d < 10 \<Longrightarrow> (digit_char d = CHR ''5'') = (d = 5)"
  by (drule digit_cases) (auto simp: digit_char_def)

lemma show_nat_3_digits:
  assumes "100 \<le> n" and "n \<le> 999"
  shows "show_nat n = [digit_char (n div 100), digit_char (n div 10 mod 10), digit_char (n mod 10)]"
proof -
  have "n div 100 < 10" using assms by arith
  then have a: "show_nat (n div 100) = [digit_char (n div 100)]"
    by (subst show_nat.simps) simp
  have "n div 10 div 10 = n div 100" by (simp add: div_mult2_eq)
  with a have b: "show_nat (n div 10) = [digit_char (n div 100), digit_char (n div 10 mod 10)]"
    using assms by (subst show_nat.simps) simp
  show ?thesis
    using assms b by (subst show_nat.simps) simp
qed

text \<open>On a three-digit status code the regular expression tests for 400 to 599.\<close>

lemma matches_status:
  assumes "100 \<le> s" and "s \<le> 999"
  shows "matches_4_or_5 (to_string (Num s)) = (400 \<le> s \<and> s \<le> 599)"
proof -
  let ?n = "nat s"
  have n: "100 \<le> ?n" "?n \<le> 999" using assms by simp_all
  have d: "?n div 100 < 10" "?n div 10 mod 10 < 10" "?n mod 10 < 10" using n by simp_all
  have "(?n div 100 = 4 \<or> ?n div 100 = 5) = (400 \<le> ?n \<and> ?n \<le> 599)" by arith
  also have "\<dots> = (400 \<le> s \<and> s \<le> 599)" using assms by arith
  finally have e: "(?n div 100 = 4 \<or> ?n div 100 = 5) = (400 \<le> s \<and> s \<le> 599)" .
  have "matches_4_or_5 (to_string (Num s)) = (?n div 100 = 4 \<or> ?n div 100 = 5)"
    using assms n d
    by (simp add: show_int_def show_nat_3_digits digit_char_4 digit_char_5 is_digit_digit_char)
  with e show ?thesis by simp
qed

lemma responseErrorCode_response:
  assumes "http_response res"
  shows "responseErrorCode res = Inr (status_4xx_5xx res)"
proof -
  from assms obtain kvs s where res: "res = Obj kvs" "get_own kvs ''statusCode'' = Num s"
    "100 \<le> s" "s \<le> 999"
    by (auto simp: http_response_def split: jsval.splits)
  then show ?thesis
    using matches_status [of s] by (simp add: responseErrorCode_def status_4xx_5xx_def)
qed

lemma failed_classification:
  assumes "nullish res \<or> http_response res"
  shows "\<exists>code. responseErrorCode res = Inr code
           \<and> failed err res code = (truthy err \<and> (nullish res \<or> status_4xx_5xx res))"
proof (cases "nullish res")
  case True
  then show ?thesis
    by (cases res) (auto simp: responseErrorCode_def failed_def)
next
  case False
  with assms have h: "http_response res" by simp
  from False have "res \<noteq> Undefined" "res \<noteq> Null" by auto
  with h False show ?thesis
    by (simp add: responseErrorCode_response failed_def)
qed

text \<open>
  C6. Let the response be missing (\<open>undefined\<close> or \<open>null\<close>) or an object with a
  three-digit status code. The completion handler treats the call as failed exactly when
  a transport error is present and the response is missing or its status is from 400 to
  599. A failure reaches the callback as one \<open>RestError\<close> with the transport error's
  message (the constructor's default message when that one is empty or missing) and the
  meta data \<open>{req, res, data}\<close>; otherwise the callback is never called with an error: a
  transport error with a 2xx or 3xx status is not a failure.
\<close>

theorem C6_classification:
  assumes "nullish res \<or> http_response res"
  shows "(truthy err \<and> (nullish res \<or> status_4xx_5xx res) \<longrightarrow>
            completion n env cache (Completion Caller methodName collection config u) err req res data
            = Some (cache,
                returns [Called (Some (RestError
                   (if truthy (get_prop err ''message'') then get_prop err ''message''
                    else Str ''REST Error Message'')
                   (Obj [(''req'', req), (''res'', res), (''data'', data)]))) Undefined]))
       \<and> (\<not> (truthy err \<and> (nullish res \<or> status_4xx_5xx res)) \<longrightarrow>
            (\<exists>cache1 r. completion n env cache (Completion Caller methodName collection config u)
                           err req res data = Some (cache1, r)
                       \<and> \<not> list_ex error_call (trace r)))"
proof -
  from failed_classification [OF assms, of err] obtain code where
    c: "responseErrorCode res = Inr code"
       "failed err res code = (truthy err \<and> (nullish res \<or> status_4xx_5xx res))"
    by blast
  show ?thesis
    using c
    by (auto simp: completion_def new_RestError_def returns_def throws_def after_def
             split: sum.splits)
qed

theorem C6_classification_witness:
  "http_response response_404 \<and> truthy not_found \<and> status_4xx_5xx response_404
   \<and> completion 0 example_env None (Completion Caller ''find'' ''widget'' example_config ''u'')
       not_found Null response_404 Null
     = Some (None, returns [Called (Some (RestError (Str ''Not Found'')
               (Obj [(''req'', Null), (''res'', response_404), (''data'', Null)]))) Undefined])
   \<and> http_response response_200 \<and> \<not> status_4xx_5xx response_200
   \<and> (\<exists>cache1 r. completion 0 example_env None
                    (Completion Caller ''find'' ''widget'' example_config ''u'')
                    not_found Null response_200 (Arr []) = Some (cache1, r)
                  \<and> \<not> list_ex error_call (trace r))"
  using C6_classification [of response_404 not_found 0 example_env None "''find''" "''widget''"
          example_config "''u''" Null Null]
        C6_classification [of response_200 not_found 0 example_env None "''find''" "''widget''"
          example_config "''u''" Null "Arr []"]
  by (simp add: http_response_def status_4xx_5xx_def response_404_def response_200_def
        not_found_def get_own_def)

section \<open>The cache\<close>

text \<open>
  C7. A \<open>find\<close> that reaches the cache with URI \<open>uri r\<close>, on a cache that holds an
  array under that URI, calls the callback with \<open>(null, array)\<close>, the array as stored,
  and calls no client method.
\<close>

theorem C7_cache_hit:
  assumes "route env collection ''find'' options Undefined = Routed r"
      and "c (uri r) = Some cached"
  shows "find_js (Suc n) env (Some c) collection options Caller
         = Some (opts r, returns [Called None (Arr cached)])"
  using assms by (simp add: find_js_def cache_get_def)

theorem C7_cache_hit_witness:
  "route example_env ''widget'' ''find'' where_id_7 Undefined = Routed routed_find_7
   \<and> example_cache (uri routed_find_7) = Some [Obj [(''id'', Num 7)]]
   \<and> find_js (Suc 0) example_env (Some example_cache) ''widget'' where_id_7 Caller
       = Some (Obj [(''where'', Obj [])], returns [Called None (Arr [Obj [(''id'', Num 7)]])])"
proof -
  have c: "example_cache (uri routed_find_7) = Some [Obj [(''id'', Num 7)]]"
    by (simp add: example_cache_def routed_find_7_def)
  from C7_cache_hit [of example_env "''widget''" where_id_7 routed_find_7 example_cache _ 0,
         OF route_find_7 c] route_find_7 c
  show ?thesis
    by (simp add: routed_find_7_def)
qed

text \<open>
  C8. A call of any method but \<open>find\<close> that is routed hands the client a completion
  handler that holds the call's URI (and throws what the client's method throws, if it
  does). When that handler sees a response it does not treat
  as failed and the result is formatted, it deletes the cache entry under that URI and
  then calls the callback with \<open>(null, result)\<close>.
\<close>

theorem C8_invalidation:
  assumes "methodName \<noteq> ''find''"
      and "route env collection methodName options values = Routed r"
      and "responseErrorCode res = Inr code"
      and "\<not> failed err res code"
      and "formatResult data (this_collections env collection) (conf r) = Inr result"
  shows "request (Suc n) env (Some c) collection methodName Caller options values
           = Some (opts r,
                   \<lparr>trace = [HttpCall (to_string (verb r))
                               (replace_first (client_href env) ''/'' (uri r))
                               (if truthy (opt r) then Some (opt r) else None)
                               (Completion Caller methodName collection (conf r) (uri r))],
                    thrown = client_call env (to_string (verb r))
                               (replace_first (client_href env) ''/'' (uri r))
                               (if truthy (opt r) then Some (opt r) else None)\<rparr>)
         \<and> completion m env (Some c) (Completion Caller methodName collection (conf r) (uri r))
             err req res data
           = Some (Some (c(uri r := None)), returns [CacheDel (uri r), Called None result])"
  using assms
  by (simp add: cache_get_def http_call_def call_client_def completion_def cache_del_def
        after_def returns_def)

theorem C8_invalidation_witness:
  "''update'' \<noteq> ''find''
   \<and> route example_env ''widget'' ''update'' where_id_7 price_5 = Routed routed_update_7
   \<and> responseErrorCode response_200 = Inr False
   \<and> \<not> failed Null response_200 False
   \<and> formatResult price_5 (this_collections example_env ''widget'') (conf routed_update_7) = Inr price_5
   \<and> completion 0 example_env (Some example_cache)
        (Completion Caller ''update'' ''widget'' (conf routed_update_7) ''http://localhost/api/widgets/7'')
        Null Null response_200 price_5
      = Some (Some (example_cache(''http://localhost/api/widgets/7'' := None)),
              returns [CacheDel ''http://localhost/api/widgets/7'', Called None price_5])"
proof -
  have a: "responseErrorCode response_200 = Inr False"
    by (simp add: responseErrorCode_def response_200_def get_own_def show_int_def
          show_nat_3_digits digit_char_def)
  have b: "\<not> failed Null response_200 False"
    by (simp add: failed_def)
  have c: "formatResult price_5 (this_collections example_env ''widget'') (conf routed_update_7)
           = Inr price_5"
    by (simp add: formatResult_def this_collections_def example_env_def routed_update_7_def
          example_config_def)
  have d: "''update'' \<noteq> ''find''" by simp
  from C8_invalidation [OF d route_update_7 a b c, of 0 example_cache 0 Null] a b c route_update_7
  show ?thesis by (simp add: routed_update_7_def)
qed

section \<open>Selector and payload\<close>

lemma select_write:
  assumes "restMethod \<noteq> Str ''get''"
      and "truthy options" and "truthy (get_prop options ''where'')"
      and "size_js (strip_id (get_prop options ''where'')) \<noteq> 0"
      and "select shared restMethod methodName pathname config options = Selected p c opt0 options1"
  shows "opt0 = strip_id (get_prop options ''where'')"
  using assms truthy_where_Obj [OF assms(3)]
  by (auto simp: select_def Let_def strip_id_def get_prop_set_prop_same split: if_splits)

text \<open>
  C1, as the code has it. On a verb other than \<open>get\<close>, when the selector is not empty
  after a truthy id was taken out, the body handed to the client is that selector and
  nothing else, whether values are supplied or not. The call of the client's method is all
  that \<open>request\<close> does, and \<open>request\<close> throws what that method throws on this path
  and body, if it does.
\<close>

theorem C1_selector_is_body:
  assumes "route env collection methodName options values = Routed r"
      and "verb r \<noteq> Str ''get''"
      and "truthy options" and "truthy (get_prop options ''where'')"
      and "size_js (strip_id (get_prop options ''where'')) \<noteq> 0"
      and "cache_get cache methodName (uri r) = None"
  shows "request (Suc n) env cache collection methodName Caller options values
         = Some (opts r,
                 \<lparr>trace = [HttpCall (to_string (verb r))
                             (replace_first (client_href env) ''/'' (uri r))
                             (Some (strip_id (get_prop options ''where'')))
                             (Completion Caller methodName collection (conf r) (uri r))],
                  thrown = client_call env (to_string (verb r))
                             (replace_first (client_href env) ''/'' (uri r))
                             (Some (strip_id (get_prop options ''where'')))\<rparr>)"
proof -
  from assms(1) obtain gp pathname config3 opt0 options1 where
    sel: "select (query_shared (this_config env) options) (rest_method env methodName) methodName
       (gp (props (resolve_config env collection options)) (rest_method env methodName)
          values options)
       (resolve_config env collection options) options
     = Selected pathname config3 opt0 options1"
    and v: "verb r = rest_method env methodName"
    and o: "opt r = (if \<not> truthy opt0 \<and> truthy values
              then (if truthy options1 then extend_js options1 values else values)
              else opt0)"
    by (rule route_Routed_cases)
  from assms(2) v have "rest_method env methodName \<noteq> Str ''get''" by simp
  from select_write [OF this assms(3,4,5) sel]
  have opt0: "opt0 = strip_id (get_prop options ''where'')" .
  have t: "truthy (strip_id (get_prop options ''where''))"
    by (rule truthy_strip_id [OF assms(4)])
  from o opt0 t have "opt r = strip_id (get_prop options ''where'')" by simp
  with t show ?thesis
    using assms(1,6) by (simp add: http_call_def call_client_def)
qed

theorem C1_selector_is_body_witness:
  "route example_env ''widget'' ''update'' where_id_7_red price_5 = Routed routed_update_7_red
   \<and> verb routed_update_7_red \<noteq> Str ''get''
   \<and> truthy where_id_7_red \<and> truthy (get_prop where_id_7_red ''where'')
   \<and> size_js (strip_id (get_prop where_id_7_red ''where'')) \<noteq> 0
   \<and> cache_get None ''update'' (uri routed_update_7_red) = None
   \<and> request (Suc 0) example_env None ''widget'' ''update'' Caller where_id_7_red price_5
       = Some (Obj [(''where'', Obj [(''color'', Str ''red'')])],
               returns [HttpCall ''put'' ''/api/widgets/7'' (Some (Obj [(''color'', Str ''red'')]))
                  (Completion Caller ''update'' ''widget'' (conf routed_update_7_red)
                     ''http://localhost/api/widgets/7'')])"
proof -
  have a: "verb routed_update_7_red \<noteq> Str ''get''"
    by (simp add: routed_update_7_red_def)
  have b: "truthy where_id_7_red" "truthy (get_prop where_id_7_red ''where'')"
    by (simp_all add: where_id_7_red_def get_own_def)
  have c: "size_js (strip_id (get_prop where_id_7_red ''where'')) \<noteq> 0"
    by (simp add: where_id_7_red_def get_own_def strip_id_def)
  have d: "cache_get None ''update'' (uri routed_update_7_red) = None"
    by (simp add: cache_get_def)
  from C1_selector_is_body [OF route_update_7_red a b c d, of 0] a b c d route_update_7_red
  show ?thesis
    by (simp add: routed_update_7_red_def where_id_7_red_def get_own_def strip_id_def
          example_env_def example_client_call_def returns_def)
qed

text \<open>
  C1 as stated fails: an update of \<open>{where: {id: 7, color: 'red'}}\<close> with the values
  \<open>{price: 5}\<close> sends the body \<open>{color: 'red'}\<close>; the price is dropped.
\<close>

theorem C1_counterexample:
  "map_option (\<lambda>(options, r). calls (trace r))
     (request (Suc 0) example_env None ''widget'' ''update'' Caller where_id_7_red price_5)
   = Some [(''put'', ''/api/widgets/7'', Some (Obj [(''color'', Str ''red'')]))]"
  by (simp add: eval_defs where_id_7_red_def price_5_def returns_def)


section \<open>The id in the selector\<close>

lemma truthy_get_prop_Obj: "truthy (get_prop v k) \<Longrightarrow> \<exists>kvs. v = Obj kvs"
  by (cases v) simp_all

lemma has_set_prop_other: "k \<noteq> k' \<Longrightarrow> has (set_prop v k' x) k = has v k"
  by (cases v) (simp_all add: update_conv')

lemma has_delete_prop_same: "\<not> has (delete_prop v k) k"
  by (cases v) (simp_all add: delete_conv')

lemma has_delete_prop_other: "k \<noteq> k' \<Longrightarrow> has (delete_prop v k') k = has v k"
  by (cases v) (simp_all add: delete_conv')

lemma map_of_assign_None:
  "(map_of (assign d s) k = None) = (map_of d k = None \<and> k \<notin> fst ` set s)"
  unfolding assign_def
proof (induction s arbitrary: d)
  case Nil
  then show ?case by simp
next
  case (Cons a s)
  then show ?case by (cases a) (auto simp: update_conv')
qed

lemma last_show_nat: "last (show_nat n) = digit_char (n mod 10)"
  by (subst show_nat.simps) simp

lemma show_nat_not_id: "show_nat n \<noteq> ''id''"
proof
  assume "show_nat n = ''id''"
  then have "last (show_nat n) = CHR ''d''" by simp
  then have "digit_char (n mod 10) = CHR ''d''" by (simp add: last_show_nat)
  moreover have "n mod 10 < 10" by simp
  ultimately show False
    using digit_cases [of "n mod 10"] by (auto simp: digit_char_def)
qed

lemma id_not_index: "''id'' \<notin> fst ` set (indexed xs)"
proof
  assume "''id'' \<in> fst ` set (indexed xs)"
  then have "''id'' \<in> set (map show_nat [0..<length xs])"
    by (auto simp: indexed_def dest: set_zip_leftD)
  then obtain n where "show_nat n = ''id''" by auto
  with show_nat_not_id show False by blast
qed

lemma has_extend_js_id: "has (extend_js a b) ''id'' \<Longrightarrow> has a ''id'' \<or> has b ''id''"
proof (cases a)
  case (Obj d)
  then show "has (extend_js a b) ''id'' \<Longrightarrow> has a ''id'' \<or> has b ''id''"
    using id_not_index
    by (cases b) (auto simp: map_of_assign_None weak_map_of_SomeI image_iff
                  dest!: map_of_SomeD)
qed simp_all

lemma copy_keys_has:
  "copy_keys ks options q = Inr q' \<Longrightarrow> k \<notin> set ks \<Longrightarrow> has q' k = has q k"
  by (induction ks arbitrary: q) (auto simp: has_set_prop_other copy_keys.simps split: if_splits)

lemma get_own_update_same: "get_own (AList.update k v kvs) k = v"
  by (simp add: get_own_def update_conv')

lemma get_own_update_other: "k \<noteq> k' \<Longrightarrow> get_own (AList.update k' v kvs) k = get_own kvs k"
  by (simp add: get_own_def update_conv')

lemma query_with_query:
  "get_own (props (with_query config q)) ''query'' =
     (if isPlainObject q then q else get_own (props config) ''query'')"
  by (simp add: with_query_def get_own_update_same)

lemma has_extend_js_query: "has (extend_js q s) k = (has q k \<or> (isPlainObject q \<and> k \<in> fst ` set (case s of Obj kvs \<Rightarrow> kvs | Arr xs \<Rightarrow> indexed xs | _ \<Rightarrow> [])))"
  by (cases q; cases s) (simp_all add: map_of_assign_None)

lemma copy_keys_plain:
  "copy_keys ks options q = Inr q' \<Longrightarrow> isPlainObject q' = isPlainObject q"
proof (induction ks arbitrary: q)
  case Nil
  then show ?case by (simp add: copy_keys.simps)
next
  case (Cons k ks)
  then show ?case by (cases q) (auto simp: copy_keys.simps split: if_splits)
qed

lemma extend_js_plain: "isPlainObject (extend_js q s) = isPlainObject q"
  by (cases q; cases s) simp_all

declare copy_keys.simps [simp del]

lemma select_truthy_id:
  assumes "truthy (get_prop (get_prop options ''where'') ''id'')"
  shows "select shared restMethod methodName pathname config options =
     (if restMethod = Str ''get'' then
        (case copy_keys [''skip'', ''limit'', ''offset'']
                (set_prop options ''where'' (delete_prop (get_prop options ''where'') ''id''))
                (extend_js (get_own (props config) ''query'')
                   (delete_prop (get_prop options ''where'') ''id'')) of
           Inl e \<Rightarrow>
             Select_thrown e
               (set_prop options ''where'' (delete_prop (get_prop options ''where'') ''id''))
         | Inr q \<Rightarrow>
             Selected (Str (to_string pathname @ ''/''
                            @ to_string (get_prop (get_prop options ''where'') ''id'')))
               (with_query config q) Undefined
               (if shared
                then set_prop (set_prop options ''where''
                                 (delete_prop (get_prop options ''where'') ''id'')) ''query'' q
                else set_prop options ''where'' (delete_prop (get_prop options ''where'') ''id'')))
      else if size_js (delete_prop (get_prop options ''where'') ''id'') \<noteq> 0 then
        Selected (Str (to_string pathname @ ''/''
                       @ to_string (get_prop (get_prop options ''where'') ''id'')))
          config (delete_prop (get_prop options ''where'') ''id'')
          (set_prop options ''where'' (delete_prop (get_prop options ''where'') ''id''))
      else
        Selected (Str (to_string pathname @ ''/''
                       @ to_string (get_prop (get_prop options ''where'') ''id'')))
          config Undefined (delete_prop options ''where''))"
proof -
  from assms obtain wkvs where w: "get_prop options ''where'' = Obj wkvs"
    using truthy_get_prop_Obj by blast
  then have "truthy (get_prop options ''where'')" by simp
  then obtain okvs where o: "options = Obj okvs"
    using truthy_get_prop_Obj by blast
  from w o have w': "get_own okvs ''where'' = Obj wkvs" by simp
  from assms w have i: "truthy (get_own wkvs ''id'')" by simp
  show ?thesis
    unfolding select_def Let_def o
    by (simp add: w' i get_own_update_same delete_update_same)
qed

lemma select_id:
  assumes "truthy (get_prop (get_prop options ''where'') ''id'')"
      and "select shared restMethod methodName pathname config options = Selected p c opt0 options1"
  shows "p = Str (to_string pathname @ ''/'' @ to_string (get_prop (get_prop options ''where'') ''id''))"
    and "has (get_own (props c) ''query'') ''id'' = has (get_own (props config) ''query'') ''id''"
    and "\<not> has opt0 ''id''"
    and "has options1 ''id'' = has options ''id''"
    and "truthy options1"
proof -
  let ?wh = "delete_prop (get_prop options ''where'') ''id''"
  let ?q0 = "extend_js (get_own (props config) ''query'') ?wh"
  from assms(1) obtain wkvs where w: "get_prop options ''where'' = Obj wkvs"
    using truthy_get_prop_Obj by blast
  then have "truthy (get_prop options ''where'')" by simp
  then obtain okvs where o: "options = Obj okvs"
    using truthy_get_prop_Obj by blast
  note sel = assms(2) [unfolded select_truthy_id [OF assms(1)]]
  show "p = Str (to_string pathname @ ''/'' @ to_string (get_prop (get_prop options ''where'') ''id''))"
    using sel by (auto split: if_splits sum.splits)
  show "\<not> has opt0 ''id''"
    using sel by (auto simp: has_delete_prop_same split: if_splits sum.splits)
  show "has options1 ''id'' = has options ''id''"
    using sel by (auto simp: has_delete_prop_other has_set_prop_other split: if_splits sum.splits)
  show "truthy options1"
    using sel o by (auto split: if_splits sum.splits)
  show "has (get_own (props c) ''query'') ''id'' = has (get_own (props config) ''query'') ''id''"
  proof (cases "restMethod = Str ''get''")
    case False
    then show ?thesis
      using sel by (auto split: if_splits)
  next
    case True
    with sel obtain q where
      q: "copy_keys [''skip'', ''limit'', ''offset''] (set_prop options ''where'' ?wh) ?q0 = Inr q"
      and c: "c = with_query config q"
      by (auto split: sum.splits)
    have h: "has q ''id'' = has ?q0 ''id''"
      by (rule copy_keys_has [OF q]) simp
    have h0: "has ?q0 ''id'' = has (get_own (props config) ''query'') ''id''"
      using delete_notin_dom [of "''id''" wkvs] by (simp add: has_extend_js_query w)
    show ?thesis
    proof (cases "isPlainObject (get_own (props config) ''query'')")
      case True
      then have "isPlainObject q" using copy_keys_plain [OF q] by (simp add: extend_js_plain)
      then show ?thesis using c h h0 by (simp add: query_with_query)
    next
      case False
      then have "\<not> isPlainObject q" using copy_keys_plain [OF q] by (simp add: extend_js_plain)
      then show ?thesis using c by (simp add: query_with_query)
    qed
  qed
qed

text \<open>
  C9, as the code has it. Line 186 tests \<open>options.where.id\<close> for truthiness. For a
  routed call whose selector has a truthy id, the final pathname is the pathname that
  \<open>getPathname\<close> returned with \<open>'/' + id\<close> appended, and the id is deleted from the
  selector before the selector goes to the query or the body: the query holds a key
  \<open>id\<close> only if the configured query did, and the body holds one only if the values or
  the options themselves have it as a key of their own.
\<close>

theorem C9_truthy_id:
  assumes "route env collection methodName options values = Routed r"
      and "truthy (get_prop (get_prop options ''where'') ''id'')"
  shows "(\<exists>gp. getPathname (resolve_config env collection options) = Some gp
            \<and> get_own (props (conf r)) ''pathname''
              = Str (to_string (gp (props (resolve_config env collection options)) (verb r)
                                   values options)
                     @ ''/'' @ to_string (get_prop (get_prop options ''where'') ''id'')))
       \<and> has (get_own (props (conf r)) ''query'') ''id''
         = has (get_own (props (resolve_config env collection options)) ''query'') ''id''
       \<and> (has (opt r) ''id'' \<longrightarrow> has values ''id'' \<or> has options ''id'')"
proof -
  from assms(1) obtain gp pathname config3 opt0 options1 where
    gp: "getPathname (resolve_config env collection options) = Some gp"
    and sel: "select (query_shared (this_config env) options) (rest_method env methodName) methodName
       (gp (props (resolve_config env collection options)) (rest_method env methodName)
          values options)
       (resolve_config env collection options) options
     = Selected pathname config3 opt0 options1"
    and v: "verb r = rest_method env methodName"
    and c: "conf r = config3\<lparr>props := AList.update ''pathname'' pathname (props config3)\<rparr>"
    and o: "opt r = (if \<not> truthy opt0 \<and> truthy values
              then (if truthy options1 then extend_js options1 values else values)
              else opt0)"
    by (rule route_Routed_cases)
  note s = select_id [OF assms(2) sel]
  have a: "get_own (props (conf r)) ''pathname''
           = Str (to_string (gp (props (resolve_config env collection options)) (verb r)
                                values options)
                  @ ''/'' @ to_string (get_prop (get_prop options ''where'') ''id''))"
    using c s(1) v by (simp add: get_own_update_same)
  have b: "has (get_own (props (conf r)) ''query'') ''id''
           = has (get_own (props (resolve_config env collection options)) ''query'') ''id''"
    using c s(2) by (simp add: get_own_update_other)
  have d: "has (opt r) ''id'' \<longrightarrow> has values ''id'' \<or> has options ''id''"
    using o s(3,4,5) has_extend_js_id [of options1 "values"] by (auto split: if_splits)
  from gp a b d show ?thesis by blast
qed

theorem C9_truthy_id_witness:
  "route example_env ''widget'' ''find'' where_id_7 Undefined = Routed routed_find_7
   \<and> truthy (get_prop (get_prop where_id_7 ''where'') ''id'')
   \<and> get_own (props (conf routed_find_7)) ''pathname'' = Str ''/api/widgets/7''
   \<and> \<not> has (get_own (props (conf routed_find_7)) ''query'') ''id''
   \<and> \<not> has (opt routed_find_7) ''id''"
proof -
  have t: "truthy (get_prop (get_prop where_id_7 ''where'') ''id'')"
    by (simp add: where_id_7_def get_own_def)
  from C9_truthy_id [OF route_find_7 t] t route_find_7 show ?thesis
    by (simp add: routed_find_7_def get_own_def where_id_7_def)
qed

text \<open>
  C9 as stated fails: a \<open>find\<close> with the selector \<open>{id: 0}\<close> keeps the pathname of the
  collection and sends the id as a query parameter; and an update of \<open>{where: {id: 7}}\<close>
  with the values \<open>{id: 7, price: 5}\<close> has the id in its body.
\<close>

theorem C9_counterexample:
  "(case route example_env ''widget'' ''find'' where_id_0 Undefined of
      Routed r \<Rightarrow> (get_own (props (conf r)) ''pathname'', get_own (props (conf r)) ''query'')
    | _ \<Rightarrow> (Undefined, Undefined))
   = (Str ''/api/widgets'', Obj [(''id'', Num 0)])
   \<and> map_option (\<lambda>(options, r). calls (trace r))
       (update (Suc 0) example_env None ''widget'' where_id_7 id_7_price_5 Caller)
     = Some [(''put'', ''/api/widgets/7'', Some (Obj [(''id'', Num 7), (''price'', Num 5)]))]"
  by (simp add: update_def eval_defs copy_keys.simps where_id_0_def where_id_7_def
        id_7_price_5_def returns_def)

section \<open>Pagination keys\<close>

lemma get_prop_set_prop_other: "k \<noteq> k' \<Longrightarrow> get_prop (set_prop v k' x) k = get_prop v k"
  by (cases v) (simp_all add: get_own_def update_conv')

lemma copy_keys_get_other:
  "copy_keys ks options q = Inr q' \<Longrightarrow> k \<notin> set ks \<Longrightarrow> get_prop q' k = get_prop q k"
  by (induction ks arbitrary: q)
     (auto simp: get_prop_set_prop_other copy_keys.simps split: if_splits)

lemma isPlainObject_set_prop: "isPlainObject (set_prop q k v) = isPlainObject q"
  by (cases q) simp_all

lemma copy_keys_get:
  "copy_keys ks options q = Inr q' \<Longrightarrow> isPlainObject q \<Longrightarrow> distinct ks \<Longrightarrow> k \<in> set ks \<Longrightarrow>
   get_prop options k \<noteq> Undefined \<Longrightarrow> get_prop q' k = get_prop options k"
proof (induction ks arbitrary: q)
  case Nil
  then show ?case by simp
next
  case (Cons a ks)
  show ?case
  proof (cases "a = k")
    case True
    with Cons.prems have c: "copy_keys ks options (set_prop q k (get_prop options k)) = Inr q'"
      and n: "k \<notin> set ks"
      by (auto simp: copy_keys.simps split: if_splits)
    from copy_keys_get_other [OF c n] Cons.prems(2) show ?thesis
      by (simp add: get_prop_set_prop_same)
  next
    case False
    with Cons.prems have k: "k \<in> set ks" and d: "distinct ks" by auto
    from Cons.prems(1) obtain q1 where c: "copy_keys ks options q1 = Inr q'"
      and p: "isPlainObject q1 = isPlainObject q"
      by (auto simp: copy_keys.simps isPlainObject_set_prop split: if_splits)
    from Cons.IH [OF c _ d k Cons.prems(5)] p Cons.prems(2) show ?thesis by simp
  qed
qed

text \<open>The selector stage on a GET with a truthy where, when it does not fan out.\<close>

lemma select_get:
  assumes "truthy options" and "truthy (get_prop options ''where'')"
      and "select shared (Str ''get'') methodName pathname config options = Selected p c opt0 options1"
  shows "\<exists>q. copy_keys [''skip'', ''limit'', ''offset'']
                (if truthy (get_prop (get_prop options ''where'') ''id'')
                 then set_prop options ''where'' (strip_id (get_prop options ''where''))
                 else options)
                (extend_js (get_own (props config) ''query'') (strip_id (get_prop options ''where'')))
              = Inr q
            \<and> c = with_query config q"
proof (cases "truthy (get_prop (get_prop options ''where'') ''id'')")
  case True
  from assms(3) [unfolded select_truthy_id [OF True]] show ?thesis
    by (simp add: strip_id_def True split: sum.splits)
next
  case False
  with assms show ?thesis
    by (simp add: select_def Let_def strip_id_def split: if_splits sum.splits)
qed

lemma select_not_get:
  assumes "restMethod \<noteq> Str ''get''"
      and "select shared restMethod methodName pathname config options = Selected p c opt0 options1"
  shows "c = config"
  using assms by (auto simp: select_def Let_def split: if_splits)

lemma select_no_where:
  assumes "\<not> (truthy options \<and> truthy (get_prop options ''where''))"
      and "select shared restMethod methodName pathname config options = Selected p c opt0 options1"
  shows "c = config"
  using assms by (auto simp: select_def Let_def split: if_splits)

lemma route_find_red:
  "route example_env ''widget'' ''find'' where_red_limit_3 Undefined = Routed routed_find_red"
  by (simp add: eval_defs copy_keys.simps where_red_limit_3_def routed_find_red_def)

text \<open>
  C3, as the code has it. The pagination keys are copied inside the branch for a truthy
  \<open>options.where\<close> (line 185). For a routed call with the verb \<open>get\<close>, a truthy
  \<open>options.where\<close> and a query object, each of \<open>skip\<close>, \<open>limit\<close>, \<open>offset\<close> that
  is not \<open>undefined\<close> in the options is in the final query with the option's value. For
  a routed call with another verb, or without a truthy \<open>options.where\<close>, the query is
  the configured one: \<open>request\<close> adds none of the keys.
\<close>

theorem C3_pagination:
  assumes "route env collection methodName options values = Routed r"
  shows "(verb r = Str ''get'' \<and> truthy options \<and> truthy (get_prop options ''where'')
          \<and> isPlainObject (get_own (props (resolve_config env collection options)) ''query'') \<longrightarrow>
            (\<forall>key \<in> {''skip'', ''limit'', ''offset''}.
               get_prop options key \<noteq> Undefined \<longrightarrow>
               get_prop (get_own (props (conf r)) ''query'') key = get_prop options key))
       \<and> (verb r \<noteq> Str ''get'' \<or> \<not> (truthy options \<and> truthy (get_prop options ''where'')) \<longrightarrow>
            get_own (props (conf r)) ''query''
            = get_own (props (resolve_config env collection options)) ''query'')"
proof -
  let ?config = "resolve_config env collection options"
  from assms(1) obtain gp pathname config3 opt0 options1 where
    sel: "select (query_shared (this_config env) options) (rest_method env methodName) methodName
       (gp (props ?config) (rest_method env methodName) values options) ?config options
     = Selected pathname config3 opt0 options1"
    and v: "verb r = rest_method env methodName"
    and c: "conf r = config3\<lparr>props := AList.update ''pathname'' pathname (props config3)\<rparr>"
    by (rule route_Routed_cases)
  from c have q: "get_own (props (conf r)) ''query'' = get_own (props config3) ''query''"
    by (simp add: get_own_update_other)
  have a: "get_prop (get_own (props (conf r)) ''query'') key = get_prop options key"
    if g: "verb r = Str ''get''" and o: "truthy options" and w: "truthy (get_prop options ''where'')"
      and p: "isPlainObject (get_own (props ?config) ''query'')"
      and k: "key \<in> {''skip'', ''limit'', ''offset''}"
      and d: "get_prop options key \<noteq> Undefined" for key
  proof -
    from sel g v have sg: "select (query_shared (this_config env) options) (Str ''get'') methodName
       (gp (props ?config) (rest_method env methodName) values options) ?config options
     = Selected pathname config3 opt0 options1" by simp
    let ?os = "if truthy (get_prop (get_prop options ''where'') ''id'')
               then set_prop options ''where'' (strip_id (get_prop options ''where''))
               else options"
    from select_get [OF o w sg] obtain q' where
      ck: "copy_keys [''skip'', ''limit'', ''offset''] ?os
             (extend_js (get_own (props ?config) ''query'') (strip_id (get_prop options ''where'')))
           = Inr q'"
      and c3: "config3 = with_query ?config q'"
      by blast
    from k have e: "get_prop ?os key = get_prop options key"
      by (auto simp: get_prop_set_prop_other)
    from p have p': "isPlainObject (extend_js (get_own (props ?config) ''query'')
                        (strip_id (get_prop options ''where'')))"
      by (simp add: extend_js_plain)
    have "get_prop q' key = get_prop ?os key"
      using copy_keys_get [OF ck p', of key] k d e by auto
    moreover have "isPlainObject q'" using copy_keys_plain [OF ck] p' by simp
    ultimately show ?thesis using q c3 e by (simp add: query_with_query)
  qed
  have b: "get_own (props (conf r)) ''query'' = get_own (props ?config) ''query''"
    if "verb r \<noteq> Str ''get'' \<or> \<not> (truthy options \<and> truthy (get_prop options ''where''))"
  proof -
    from that have "config3 = ?config"
      using select_not_get [OF _ sel] select_no_where [OF _ sel] v by auto
    with q show ?thesis by simp
  qed
  from a b show ?thesis by blast
qed


theorem C3_pagination_witness:
  "route example_env ''widget'' ''find'' where_red_limit_3 Undefined = Routed routed_find_red
   \<and> verb routed_find_red = Str ''get'' \<and> truthy where_red_limit_3
   \<and> truthy (get_prop where_red_limit_3 ''where'')
   \<and> isPlainObject (get_own (props (resolve_config example_env ''widget'' where_red_limit_3))
                       ''query'')
   \<and> get_prop where_red_limit_3 ''limit'' \<noteq> Undefined
   \<and> get_prop (get_own (props (conf routed_find_red)) ''query'') ''limit'' = Num 3
   \<and> route example_env ''widget'' ''update'' where_id_7 price_5 = Routed routed_update_7
   \<and> verb routed_update_7 \<noteq> Str ''get''
   \<and> get_own (props (conf routed_update_7)) ''query'' = Obj []"
proof -
  have a: "verb routed_find_red = Str ''get''" "truthy where_red_limit_3"
    "truthy (get_prop where_red_limit_3 ''where'')"
    "isPlainObject (get_own (props (resolve_config example_env ''widget'' where_red_limit_3))
                      ''query'')"
    "get_prop where_red_limit_3 ''limit'' \<noteq> Undefined"
    by (simp_all add: routed_find_red_def where_red_limit_3_def pipeline_defs example_defs)
  have b: "verb routed_update_7 \<noteq> Str ''get''"
    by (simp add: routed_update_7_def)
  have c: "get_own (props (resolve_config example_env ''widget'' where_id_7)) ''query'' = Obj []"
    by (simp add: where_id_7_def pipeline_defs example_defs)
  from C3_pagination [OF route_find_red] C3_pagination [OF route_update_7] a b c
       route_find_red route_update_7
  show ?thesis by (simp add: where_red_limit_3_def get_own_def)
qed

text \<open>
  C3 as stated fails: a \<open>find\<close> with the options \<open>{limit: 3}\<close> is a GET whose query
  has no \<open>limit\<close>; and a \<open>create\<close>, a POST, on a configuration whose query has a
  \<open>limit\<close> keeps it in its query.
\<close>

theorem C3_counterexample:
  "(case route example_env ''widget'' ''find'' limit_3 Undefined of
      Routed r \<Rightarrow> (verb r, get_prop limit_3 ''limit'', get_own (props (conf r)) ''query'')
    | _ \<Rightarrow> (Undefined, Undefined, Undefined))
   = (Str ''get'', Num 3, Obj [])
   \<and> (case route paged_env ''widget'' ''create'' Null price_5 of
        Routed r \<Rightarrow> (verb r, get_own (props (conf r)) ''query'')
      | _ \<Rightarrow> (Undefined, Undefined))
     = (Str ''post'', Obj [(''limit'', Num 5)])"
  by (simp add: eval_defs limit_3_def paged_env_def price_5_def)

section \<open>The caller's options\<close>

lemma show_nat_digits: "list_all is_digit (show_nat n)"
proof (induction n rule: show_nat.induct)
  case (1 n)
  show ?case
  proof (cases "n < 10")
    case True
    then show ?thesis by (subst show_nat.simps) (simp add: is_digit_digit_char)
  next
    case False
    with 1 have "list_all is_digit (show_nat (n div 10))" by simp
    with False show ?thesis by (subst show_nat.simps) (simp add: is_digit_digit_char)
  qed
qed

lemma not_index: "\<not> list_all is_digit k \<Longrightarrow> k \<notin> fst ` set (indexed xs)"
proof
  assume n: "\<not> list_all is_digit k" and "k \<in> fst ` set (indexed xs)"
  then have "k \<in> set (map show_nat [0..<length xs])"
    by (auto simp: indexed_def dest: set_zip_leftD)
  then obtain i where "show_nat i = k" by auto
  with n show_nat_digits [of i] show False by simp
qed

lemma map_of_assign_other: "k \<notin> fst ` set s \<Longrightarrow> map_of (assign d s) k = map_of d k"
  unfolding assign_def
proof (induction s arbitrary: d)
  case Nil
  then show ?case by simp
next
  case (Cons a s)
  then show ?case by (cases a) (auto simp: update_conv')
qed

lemma get_prop_extend_js_other:
  assumes "\<not> has b k" and "\<not> list_all is_digit k"
  shows "get_prop (extend_js a b) k = get_prop a k"
proof (cases a)
  case (Obj d)
  show ?thesis
  proof (cases b)
    case (Obj s)
    with assms(1) have "k \<notin> fst ` set s"
      by (simp add: map_of_eq_None_iff)
    with Obj \<open>a = Obj d\<close> show ?thesis by (simp add: get_own_def map_of_assign_other)
  next
    case (Arr xs)
    with not_index [OF assms(2), of xs] \<open>a = Obj d\<close> show ?thesis
      by (simp add: get_own_def map_of_assign_other)
  qed (simp_all add: \<open>a = Obj d\<close>)
qed simp_all

lemma where_not_digits: "\<not> list_all is_digit ''where''"
  by (simp add: is_digit_def)

lemma get_prop_delete_prop_same: "get_prop (delete_prop v k) k = Undefined"
  by (cases v) (simp_all add: get_own_def delete_conv')

text \<open>
  C10, as the code has it. \<open>request\<close> works on the caller's options object. For a routed
  call whose selector has a truthy id, the options the call leaves behind are \<open>opts r\<close>:
  unless the values bring a \<open>where\<close> of their own, \<open>options.where\<close> has no id any more;
  on a GET, or when other selector fields remain, \<open>options.where\<close> is the selector
  without the id; on another verb, a selector left empty is deleted from the options, and
  truthy values are then merged into the options object, which is the body.
\<close>

theorem C10_options_mutated:
  assumes "route env collection methodName options values = Routed r"
      and "truthy (get_prop (get_prop options ''where'') ''id'')"
  shows "(\<exists>run. request (Suc n) env cache collection methodName Caller options values
                 = Some (opts r, run))
       \<and> (\<not> has values ''where'' \<longrightarrow> \<not> has (get_prop (opts r) ''where'') ''id'')
       \<and> (\<not> has values ''where''
            \<and> (verb r = Str ''get'' \<or> size_js (strip_id (get_prop options ''where'')) \<noteq> 0) \<longrightarrow>
            get_prop (opts r) ''where'' = strip_id (get_prop options ''where''))
       \<and> (verb r \<noteq> Str ''get'' \<and> size_js (strip_id (get_prop options ''where'')) = 0 \<longrightarrow>
            (if truthy values
             then opt r = opts r \<and> opts r = extend_js (delete_prop options ''where'') values
             else opts r = delete_prop options ''where''))"
proof -
  let ?config = "resolve_config env collection options"
  let ?wh = "delete_prop (get_prop options ''where'') ''id''"
  from assms(1) obtain gp pathname config3 opt0 options1 where
    sel: "select (query_shared (this_config env) options) (rest_method env methodName) methodName
       (gp (props ?config) (rest_method env methodName) values options) ?config options
     = Selected pathname config3 opt0 options1"
    and v: "verb r = rest_method env methodName"
    and o: "opt r = (if \<not> truthy opt0 \<and> truthy values
              then (if truthy options1 then extend_js options1 values else values)
              else opt0)"
    and os: "opts r = (if \<not> truthy opt0 \<and> truthy values \<and> truthy options1
               then extend_js options1 values else options1)"
    by (rule route_Routed_cases)
  note sel' = sel [unfolded select_truthy_id [OF assms(2)]]
  from assms(2) obtain wkvs where w: "get_prop options ''where'' = Obj wkvs"
    using truthy_get_prop_Obj by blast
  then have "truthy (get_prop options ''where'')" by simp
  then obtain okvs where ob: "options = Obj okvs"
    using truthy_get_prop_Obj by blast
  have st: "strip_id (get_prop options ''where'') = ?wh"
    using assms(2) by (simp add: strip_id_def)
  have t1: "truthy options1"
    by (rule select_id(5) [OF assms(2) sel])
  have req: "\<exists>run. request (Suc n) env cache collection methodName Caller options values
                 = Some (opts r, run)"
    using assms(1) by (auto split: option.splits)
  have gw: "get_prop options1 ''where'' = ?wh"
    if "verb r = Str ''get'' \<or> size_js ?wh \<noteq> 0"
    using sel' that v ob
    by (auto simp: get_prop_set_prop_other get_own_update_same get_own_update_other
             split: if_splits sum.splits)
  have gd: "options1 = delete_prop options ''where'' \<and> opt0 = Undefined"
    if "verb r \<noteq> Str ''get''" "size_js ?wh = 0"
    using sel' that v by (auto split: if_splits)
  have a: "\<not> has (get_prop (opts r) ''where'') ''id''" if nw: "\<not> has values ''where''"
  proof -
    have e: "get_prop (opts r) ''where'' = get_prop options1 ''where''"
      using os get_prop_extend_js_other [OF nw where_not_digits, of options1] by simp
    show ?thesis
    proof (cases "verb r = Str ''get'' \<or> size_js ?wh \<noteq> 0")
      case True
      with gw e show ?thesis by (simp add: has_delete_prop_same)
    next
      case False
      with gd have "options1 = delete_prop options ''where''" by simp
      with e show ?thesis by (simp add: get_prop_delete_prop_same)
    qed
  qed
  have b: "get_prop (opts r) ''where'' = strip_id (get_prop options ''where'')"
    if nw: "\<not> has values ''where''" and c: "verb r = Str ''get'' \<or> size_js (strip_id (get_prop options ''where'')) \<noteq> 0"
  proof -
    have e: "get_prop (opts r) ''where'' = get_prop options1 ''where''"
      using os get_prop_extend_js_other [OF nw where_not_digits, of options1] by simp
    with gw c st show ?thesis by simp
  qed
  have d: "if truthy values
           then opt r = opts r \<and> opts r = extend_js (delete_prop options ''where'') values
           else opts r = delete_prop options ''where''"
    if "verb r \<noteq> Str ''get''" "size_js (strip_id (get_prop options ''where'')) = 0"
    using gd that st o os t1 by simp
  from req a b d show ?thesis by blast
qed

theorem C10_options_mutated_witness:
  "route example_env ''widget'' ''update'' where_id_7 price_5 = Routed routed_update_7
   \<and> truthy (get_prop (get_prop where_id_7 ''where'') ''id'')
   \<and> \<not> has price_5 ''where''
   \<and> verb routed_update_7 \<noteq> Str ''get''
   \<and> size_js (strip_id (get_prop where_id_7 ''where'')) = 0
   \<and> truthy price_5
   \<and> (\<exists>run. request (Suc 0) example_env None ''widget'' ''update'' Caller where_id_7 price_5
              = Some (opts routed_update_7, run))
   \<and> \<not> has (get_prop (opts routed_update_7) ''where'') ''id''
   \<and> opt routed_update_7 = opts routed_update_7
   \<and> opts routed_update_7 = extend_js (delete_prop where_id_7 ''where'') price_5"
proof -
  have a: "truthy (get_prop (get_prop where_id_7 ''where'') ''id'')"
    by (simp add: where_id_7_def get_own_def)
  have b: "\<not> has price_5 ''where''" "verb routed_update_7 \<noteq> Str ''get''"
    "size_js (strip_id (get_prop where_id_7 ''where'')) = 0" "truthy price_5"
    by (simp_all add: price_5_def routed_update_7_def where_id_7_def get_own_def strip_id_def)
  note t = C10_options_mutated [OF route_update_7 a, of 0 None]
  from t have c: "\<exists>run. request (Suc 0) example_env None ''widget'' ''update'' Caller where_id_7 price_5
              = Some (opts routed_update_7, run)"
    by blast
  from t b have d: "\<not> has (get_prop (opts routed_update_7) ''where'') ''id''"
    by blast
  from t b have e: "opt routed_update_7 = opts routed_update_7
      \<and> opts routed_update_7 = extend_js (delete_prop where_id_7 ''where'') price_5"
    by (simp del: request.simps)
  from a b c d e route_update_7 show ?thesis by blast
qed

text \<open>
  C10 as stated fails: after a \<open>find\<close> with the selector \<open>{id: 0}\<close> the caller's
  \<open>options.where\<close> still has its id; and after a \<open>find\<close> with the selector
  \<open>{id: 7}\<close>, a GET, the emptied \<open>where\<close> is still in the caller's options.
\<close>

theorem C10_counterexample:
  "map_option (\<lambda>(options, r). has (get_prop options ''where'') ''id'')
     (request (Suc 0) example_env None ''widget'' ''find'' Caller where_id_0 Undefined)
   = Some True
   \<and> map_option (\<lambda>(options, r). options)
       (request (Suc 0) example_env None ''widget'' ''find'' Caller where_id_7 Undefined)
     = Some (Obj [(''where'', Obj [])])"
  by (simp add: eval_defs copy_keys.simps where_id_0_def where_id_7_def)

section \<open>Update and destroy without an id\<close>


lemma copy_keys_none:
  "\<forall>k \<in> set ks. get_prop os k = Undefined \<Longrightarrow> copy_keys ks os q = Inr q"
  by (induction ks arbitrary: q) (simp_all add: copy_keys.simps)

lemma getPathname_override:
  "getPathname (resolve_config env collection options)
   = (if truthy options \<and> isPlainObject options \<and> has options ''getPathname'' then None
      else getPathname (this_config env))"
  by (auto simp: resolve_config_def override_config_def Let_def)

lemma route_id_options:
  assumes "\<not> nullish (get_own (props (this_config env)) ''methods'')"
      and "collections env \<noteq> None"
      and "client_function env (to_string (rest_method env methodName))"
      and "getPathname (this_config env) = Some gp"
      and "truthy (get_prop result ''id'')"
      and "\<forall>u. \<exists>s. url_format env u = Inr s"
  shows "\<exists>x. route env collection methodName (id_options result) values = Routed x"
proof -
  have i: "truthy (get_prop (get_prop (id_options result) ''where'') ''id'')"
    using assms(5) by (simp add: id_options_def get_own_def)
  have g: "getPathname (resolve_config env collection (id_options result)) = Some gp"
    using assms(4) by (simp add: getPathname_override id_options_def)
  have u: "\<exists>s. url_format env a = Inr s" for a
    using assms(6) by blast
  have c: "copy_keys [''skip'', ''limit'', ''offset'']
             (set_prop (id_options result) ''where''
                (delete_prop (get_prop (id_options result) ''where'') ''id'')) q = Inr q" for q
    by (rule copy_keys_none) (simp add: id_options_def get_own_def)
  show ?thesis
  proof (cases "rest_method env methodName = Str ''get''")
    case True
    let ?q = "extend_js (get_own (props (resolve_config env collection (id_options result)))
                           ''query'')
                (delete_prop (get_prop (id_options result) ''where'') ''id'')"
    let ?a = "url_fields (AList.update ''pathname''
                (Str (to_string (gp (props (resolve_config env collection (id_options result)))
                                    (rest_method env methodName) values (id_options result))
                      @ ''/'' @ to_string (get_prop (get_prop (id_options result) ''where'') ''id'')))
                (props (with_query (resolve_config env collection (id_options result)) ?q)))"
    from u [of ?a] obtain s where "url_format env ?a = Inr s" by blast
    with True show ?thesis
      using assms(1,2,3) g
      by (simp add: route_def Let_def select_truthy_id [OF i] c)
  next
    case False
    let ?a = "url_fields (AList.update ''pathname''
                (Str (to_string (gp (props (resolve_config env collection (id_options result)))
                                    (rest_method env methodName) values (id_options result))
                      @ ''/'' @ to_string (get_prop (get_prop (id_options result) ''where'') ''id'')))
                (props (resolve_config env collection (id_options result))))"
    from u [of ?a] obtain s where "url_format env ?a = Inr s" by blast
    with False show ?thesis
      using assms(1,2,3) g
      by (simp add: route_def Let_def select_truthy_id [OF i] c)
  qed
qed

text \<open>
  The body of a sub-request: none, or the options object with the values merged into it.
\<close>

lemma select_id_options:
  assumes "truthy (get_prop result ''id'')"
      and "select shared restMethod methodName pathname config (id_options result)
           = Selected p c opt0 options1"
  shows "opt0 = Undefined \<and> isPlainObject options1"
proof -
  have i: "truthy (get_prop (get_prop (id_options result) ''where'') ''id'')"
    using assms(1) by (simp add: id_options_def get_own_def)
  have ck: "copy_keys [''skip'', ''limit'', ''offset'']
             (set_prop (id_options result) ''where''
                (delete_prop (get_prop (id_options result) ''where'') ''id'')) q = Inr q" for q
    by (rule copy_keys_none) (simp add: id_options_def get_own_def)
  have sz: "size_js (delete_prop (get_prop (id_options result) ''where'') ''id'') = 0"
    by (simp add: id_options_def get_own_def)
  have pl: "isPlainObject (id_options result)" "isPlainObject (delete_prop (id_options result) k)"
    for k
    by (simp_all add: id_options_def)
  from assms(2) [unfolded select_truthy_id [OF i]] show ?thesis
    by (auto simp: ck sz pl isPlainObject_set_prop split: if_splits)
qed

lemma routed_id_options_body:
  assumes "truthy (get_prop result ''id'')"
      and "route env collection methodName (id_options result) values = Routed x"
  shows "\<not> truthy (opt x) \<or> isPlainObject (opt x)"
proof -
  from assms(2) obtain gp pathname config3 opt0 options1 where
    sel: "select (query_shared (this_config env) (id_options result)) (rest_method env methodName)
            methodName
            (gp (props (resolve_config env collection (id_options result)))
               (rest_method env methodName) values (id_options result))
            (resolve_config env collection (id_options result)) (id_options result)
          = Selected pathname config3 opt0 options1"
    and o: "opt x = (if \<not> truthy opt0 \<and> truthy values
              then (if truthy options1 then extend_js options1 values else values)
              else opt0)"
    by (rule route_Routed_cases)
  from select_id_options [OF assms(1) sel] have "opt0 = Undefined" "isPlainObject options1"
    by simp_all
  moreover from this(2) have "truthy options1" by (cases options1) simp_all
  ultimately show ?thesis using o by (simp add: extend_js_plain)
qed

lemma request_Routed_miss:
  assumes "route env collection methodName options values = Routed x"
      and "cache_get cache methodName (uri x) = None"
  shows "request (Suc n) env cache collection methodName callback options values
         = Some (opts x, call_client env collection methodName callback x)"
  using assms by simp

lemma each_result_ids:
  assumes "methodName \<noteq> ''find''"
      and "\<not> nullish (get_own (props (this_config env)) ''methods'')"
      and "collections env \<noteq> None"
      and "client_function env (to_string (rest_method env methodName))"
      and "getPathname (this_config env) = Some gp"
      and "\<forall>u. \<exists>s. url_format env u = Inr s"
      and "(\<forall>v p. client_call env v p None = None)
           \<and> (\<forall>v p kvs. client_call env v p (Some (Obj kvs)) = None)"
      and "\<forall>x \<in> set rs. truthy (get_prop x ''id'')"
  shows "\<exists>xs. length xs = length rs
           \<and> (\<forall>j < length rs. route env collection methodName (id_options (rs ! j)) values
                               = Routed (xs ! j))
           \<and> each_result (Suc n) env cache collection methodName callback values i len rs
             = Some (returns (map (\<lambda>j. http_call env collection methodName
                                          (if i + j + 1 = len then callback else Noop) (xs ! j))
                                [0..<length rs]))"
  using assms(8)
proof (induction rs arbitrary: i)
  case Nil
  then show ?case by simp
next
  case (Cons r rs)
  from Cons.prems have t: "truthy (get_prop r ''id'')" and rest: "\<forall>x \<in> set rs. truthy (get_prop x ''id'')"
    by simp_all
  from t have nn: "\<not> nullish r" by (cases r) simp_all
  from route_id_options [OF assms(2,3,4,5) t assms(6)] obtain x where
    x: "route env collection methodName (id_options r) values = Routed x" by blast
  from assms(1) have miss: "cache_get cache methodName (uri x) = None"
    by (simp add: cache_get_def)
  have cc: "client_call env (to_string (verb x)) (replace_first (client_href env) ''/'' (uri x))
              (if truthy (opt x) then Some (opt x) else None) = None"
  proof (cases "truthy (opt x)")
    case True
    with routed_id_options_body [OF t x] obtain kvs where "opt x = Obj kvs"
      by (cases "opt x") simp_all
    with True assms(7) show ?thesis by simp
  next
    case False
    with assms(7) show ?thesis by simp
  qed
  from Cons.IH [OF rest, of "Suc i"] obtain xs where
    l: "length xs = length rs"
    and rt: "\<forall>j < length rs. route env collection methodName (id_options (rs ! j)) values
                               = Routed (xs ! j)"
    and e: "each_result (Suc n) env cache collection methodName callback values (Suc i) len rs
             = Some (returns (map (\<lambda>j. http_call env collection methodName
                                          (if Suc i + j + 1 = len then callback else Noop) (xs ! j))
                                [0..<length rs]))"
    by blast
  have a: "length (x # xs) = length (r # rs)" using l by simp
  have b: "\<forall>j < length (r # rs). route env collection methodName (id_options ((r # rs) ! j)) values
                               = Routed ((x # xs) ! j)"
    using x rt by (auto simp: nth_Cons split: nat.splits)
  have m: "map (\<lambda>j. http_call env collection methodName
                        (if i + j + 1 = len then callback else Noop) ((x # xs) ! j))
             [0..<length (r # rs)]
           = http_call env collection methodName (if i + 1 = len then callback else Noop) x
             # map (\<lambda>j. http_call env collection methodName
                        (if Suc i + j + 1 = len then callback else Noop) (xs ! j))
                 [0..<length rs]"
    by (simp add: upt_conv_Cons map_Suc_upt [symmetric] del: upt_Suc)
  have c: "each_result (Suc n) env cache collection methodName callback values i len (r # rs)
           = Some (returns (map (\<lambda>j. http_call env collection methodName
                                          (if i + j + 1 = len then callback else Noop) ((x # xs) ! j))
                                [0..<length (r # rs)]))"
    unfolding m
    using nn request_Routed_miss [OF x miss, of n "if i + 1 = len then callback else Noop"] e
      cc
    by (simp add: returns_def call_client_def del: request.simps)
  from a b c show ?case by blast
qed








section \<open>Exceptions\<close>

lemma nullish_set_prop: "nullish (set_prop q k v) = nullish q"
  by (cases q) simp_all

lemma nullish_extend_js: "nullish (extend_js q s) = nullish q"
  by (cases q; cases s) simp_all

lemma copy_keys_total: "\<not> nullish q \<Longrightarrow> \<exists>q'. copy_keys ks os q = Inr q'"
  by (induction ks arbitrary: q) (simp_all add: copy_keys.simps nullish_set_prop)

lemma select_not_thrown:
  assumes "\<not> nullish (get_own (props config) ''query'')"
  shows "select shared restMethod methodName pathname config options \<noteq> Select_thrown e os"
proof
  assume "select shared restMethod methodName pathname config options = Select_thrown e os"
  then obtain os' s where "copy_keys [''skip'', ''limit'', ''offset''] os'
                            (extend_js (get_own (props config) ''query'') s) = Inl e"
    by (auto simp: select_def Let_def split: if_splits sum.splits)
  moreover have "\<exists>q'. copy_keys [''skip'', ''limit'', ''offset''] os'
                         (extend_js (get_own (props config) ''query'') s) = Inr q'"
    using assms by (intro copy_keys_total) (simp add: nullish_extend_js)
  ultimately show False by auto
qed

lemma route_not_Thrown:
  assumes "\<not> nullish (get_own (props (this_config env)) ''methods'')"
      and "collections env \<noteq> None"
      and "getPathname (resolve_config env collection options) = Some gp"
      and "\<not> nullish (get_own (props (resolve_config env collection options)) ''query'')"
  shows "route env collection methodName options values \<noteq> Thrown e os"
  using assms(1,2,3) select_not_thrown [OF assms(4)]
  by (auto simp: route_def Let_def split: selection.splits sum.splits)

lemma route_Unformatted:
  assumes "route env collection methodName options values = Unformatted e c os"
  shows "url_format env (url_fields (props c)) = Inl e"
  using assms
  by (auto simp: route_def Let_def split: if_splits option.splits selection.splits sum.splits)

lemma route_no_getPathname:
  assumes "\<not> nullish (get_own (props (this_config env)) ''methods'')"
      and "collections env \<noteq> None"
      and "client_function env (to_string (rest_method env methodName))"
      and "getPathname (resolve_config env collection options) = None"
  shows "route env collection methodName options values = Thrown TypeError options"
  using assms by (simp add: route_def Let_def)

lemma route_no_collections:
  assumes "collections env = None"
  shows "route env collection methodName options values = Thrown TypeError options"
  using assms by (simp add: route_def)

lemma route_Enumerate_cases:
  assumes "route env collection methodName options values = Enumerate"
  shows "(methodName = ''update'' \<or> methodName = ''destroy'')
       \<and> \<not> nullish (get_own (props (this_config env)) ''methods'')
       \<and> client_function env (to_string (rest_method env methodName))
       \<and> truthy (get_prop options ''where'')
       \<and> \<not> truthy (get_prop (get_prop options ''where'') ''id'')"
  using assms
  by (auto simp: route_def select_def Let_def split: if_splits option.splits selection.splits sum.splits)

lemma route_find_not_Enumerate: "route env collection ''find'' options values \<noteq> Enumerate"
  using route_Enumerate_cases [of env collection "''find''" options "values"] by auto


lemma thrown_returns: "thrown (returns es) = None"
  by (simp add: returns_def)

lemma isPlainObject_delete_prop: "isPlainObject (delete_prop q k) = isPlainObject q"
  by (cases q) simp_all

text \<open>
  The body of a call: none, or an object, when the options, the selector and the values
  are each falsy or an object.
\<close>

lemma select_body:
  assumes "\<not> truthy options \<or> isPlainObject options"
      and "\<not> truthy (get_prop options ''where'') \<or> isPlainObject (get_prop options ''where'')"
      and "select shared restMethod methodName pathname config options
           = Selected p c opt0 options1"
  shows "(\<not> truthy opt0 \<or> isPlainObject opt0) \<and> (\<not> truthy options1 \<or> isPlainObject options1)"
proof (cases "truthy (get_prop (get_prop options ''where'') ''id'')")
  case True
  then obtain wkvs where w: "get_prop options ''where'' = Obj wkvs"
    using truthy_get_prop_Obj by blast
  then have "truthy (get_prop options ''where'')" by simp
  then obtain okvs where o: "options = Obj okvs"
    using truthy_get_prop_Obj by blast
  from w o have w': "get_own okvs ''where'' = Obj wkvs" by simp
  from assms(3) [unfolded select_truthy_id [OF True]] show ?thesis
    by (auto simp: isPlainObject_set_prop isPlainObject_delete_prop w' o
             split: if_splits sum.splits)
next
  case False
  with assms show ?thesis
    by (auto simp: select_def Let_def isPlainObject_set_prop isPlainObject_delete_prop
             split: if_splits sum.splits)
qed

lemma route_body:
  assumes "\<not> truthy options \<or> isPlainObject options"
      and "\<not> truthy (get_prop options ''where'') \<or> isPlainObject (get_prop options ''where'')"
      and "\<not> truthy values \<or> isPlainObject values"
      and "route env collection methodName options values = Routed x"
  shows "\<not> truthy (opt x) \<or> isPlainObject (opt x)"
proof -
  from assms(4) obtain gp pathname config3 opt0 options1 where
    sel: "select (query_shared (this_config env) options) (rest_method env methodName) methodName
            (gp (props (resolve_config env collection options)) (rest_method env methodName)
               values options)
            (resolve_config env collection options) options
          = Selected pathname config3 opt0 options1"
    and o: "opt x = (if \<not> truthy opt0 \<and> truthy values
              then (if truthy options1 then extend_js options1 values else values)
              else opt0)"
    by (rule route_Routed_cases)
  from select_body [OF assms(1,2) sel] o assms(3) show ?thesis
    by (auto simp: extend_js_plain)
qed

text \<open>
  Under the conditions on the configuration and the cache, with a URL formatter that
  returns and a client whose methods return when they get no body or an object,
  \<open>request\<close> returns without throwing.
\<close>

lemma request_no_throw:
  assumes m: "\<not> nullish (get_own (props (this_config env)) ''methods'')"
      and r: "collections env \<noteq> None"
      and g: "getPathname (resolve_config env collection options) = Some gp"
      and qo: "isPlainObject (get_own (props (resolve_config env collection options)) ''query'')"
      and so: "\<not> truthy options \<or> isPlainObject options"
      and sw: "\<not> truthy (get_prop options ''where'') \<or> isPlainObject (get_prop options ''where'')"
      and sv: "\<not> truthy values \<or> isPlainObject values"
      and uf: "\<forall>u. \<exists>s. url_format env u = Inr s"
      and cc: "(\<forall>v p. client_call env v p None = None)
               \<and> (\<forall>v p kvs. client_call env v p (Some (Obj kvs)) = None)"
      and c: "\<forall>u rs. cache_get cache ''find'' u = Some rs \<longrightarrow> (\<forall>x \<in> set rs. truthy (get_prop x ''id''))"
      and cb: "callback = Caller \<or> callback = Noop"
  shows "\<exists>os run. request (Suc (Suc (Suc (Suc n)))) env cache collection methodName callback
                     options values = Some (os, run)
                 \<and> thrown run = None"
proof -
  from qo have q: "\<not> nullish (get_own (props (resolve_config env collection options)) ''query'')"
    by (cases "get_own (props (resolve_config env collection options)) ''query''") simp_all
  have nu: "route env collection mn options vs \<noteq> Unformatted e cf os" for mn vs e cf os
  proof
    assume "route env collection mn options vs = Unformatted e cf os"
    from route_Unformatted [OF this] uf show False
      by (metis sum.distinct(1))
  qed
  have tc: "thrown (call_client env cn mn k x) = None"
    if "\<not> truthy (opt x) \<or> isPlainObject (opt x)" for cn mn k x
  proof (cases "truthy (opt x)")
    case True
    with that obtain kvs where "opt x = Obj kvs" by (cases "opt x") simp_all
    with True cc show ?thesis by (simp add: call_client_def)
  next
    case False
    with cc show ?thesis by (simp add: call_client_def)
  qed
  show ?thesis
  proof (cases "route env collection methodName options values")
    case (Thrown e os)
    with route_not_Thrown [OF m r g q] show ?thesis by blast
  next
    case (Invalid msg)
    with cb show ?thesis by (auto simp: thrown_returns)
  next
    case (Unformatted e cf os)
    with nu show ?thesis by blast
  next
    case (Routed x)
    from tc [OF route_body [OF so sw sv Routed]] Routed cb show ?thesis
      by (auto simp: thrown_returns split: option.splits)
  next
    case Enumerate
    note en = route_Enumerate_cases [OF Enumerate]
    from en have nf: "methodName \<noteq> ''find''" by auto
    from g have g': "getPathname (this_config env) = Some gp"
      by (simp add: getPathname_override split: if_splits)
    let ?fan = "FanOut collection methodName callback values"
    have rq: "request (Suc (Suc (Suc (Suc n)))) env cache collection methodName callback options
                values
              = request (Suc (Suc (Suc n))) env cache collection ''find'' ?fan options Undefined"
      using Enumerate by simp
    show ?thesis
    proof (cases "route env collection ''find'' options Undefined")
      case (Thrown e os)
      with route_not_Thrown [OF m r g q] show ?thesis by blast
    next
      case Enumerate
      with route_find_not_Enumerate show ?thesis by blast
    next
      case (Invalid msg)
      with cb rq show ?thesis by (auto simp: thrown_returns)
    next
      case (Unformatted e cf os)
      with nu show ?thesis by blast
    next
      case (Routed x)
      have "\<not> truthy Undefined \<or> isPlainObject Undefined" by simp
      note b = tc [OF route_body [OF so sw this Routed]]
      show ?thesis
      proof (cases "cache_get cache ''find'' (uri x)")
        case None
        with Routed rq b show ?thesis by simp
      next
        case (Some rs)
        with c have ids: "\<forall>x \<in> set rs. truthy (get_prop x ''id'')" by blast
        from each_result_ids [OF nf m r _ g' uf cc ids,
               of collection "values" n cache callback 0 "length rs"] en
        obtain es where "each_result (Suc n) env cache collection methodName callback values 0
                           (length rs) rs = Some (returns es)"
          by blast
        with Routed Some rq show ?thesis by (simp add: thrown_returns)
      qed
    qed
  qed
qed

text \<open>
  A call that does not fan out: what it throws was thrown by \<open>url.format\<close> on the
  configuration of the call, or by the client's method on the call's verb, path and body.
\<close>

lemma request_direct:
  assumes m: "\<not> nullish (get_own (props (this_config env)) ''methods'')"
      and r: "collections env \<noteq> None"
      and g: "getPathname (resolve_config env collection options) = Some gp"
      and qo: "isPlainObject (get_own (props (resolve_config env collection options)) ''query'')"
      and cb: "callback = Caller \<or> callback = Noop"
      and ne: "methodName \<noteq> ''update'' \<and> methodName \<noteq> ''destroy''
               \<or> \<not> truthy (get_prop options ''where'')
               \<or> truthy (get_prop (get_prop options ''where'') ''id'')"
  shows "\<exists>os run. request (Suc n) env cache collection methodName callback options values
                     = Some (os, run)
           \<and> (thrown run = None
              \<or> (\<exists>e c. thrown run = Some e
                       \<and> route env collection methodName options values = Unformatted e c os
                       \<and> url_format env (url_fields (props c)) = Inl e)
              \<or> (\<exists>e x. thrown run = Some e
                       \<and> route env collection methodName options values = Routed x
                       \<and> cache_get cache methodName (uri x) = None
                       \<and> client_call env (to_string (verb x))
                            (replace_first (client_href env) ''/'' (uri x))
                            (if truthy (opt x) then Some (opt x) else None) = Some e))"
proof -
  from qo have q: "\<not> nullish (get_own (props (resolve_config env collection options)) ''query'')"
    by (cases "get_own (props (resolve_config env collection options)) ''query''") simp_all
  show ?thesis
  proof (cases "route env collection methodName options values")
    case (Thrown e os)
    with route_not_Thrown [OF m r g q] show ?thesis by blast
  next
    case (Invalid msg)
    with cb show ?thesis by (auto simp: thrown_returns)
  next
    case Enumerate
    from route_Enumerate_cases [OF this] ne show ?thesis by blast
  next
    case (Unformatted e cf os)
    with route_Unformatted [OF Unformatted] show ?thesis by (simp add: throws_def)
  next
    case (Routed x)
    show ?thesis
    proof (cases "cache_get cache methodName (uri x)")
      case (Some hit)
      with Routed cb show ?thesis by (auto simp: thrown_returns)
    next
      case None
      show ?thesis
      proof (cases "client_call env (to_string (verb x))
                      (replace_first (client_href env) ''/'' (uri x))
                      (if truthy (opt x) then Some (opt x) else None)")
        case None
        with Routed \<open>cache_get cache methodName (uri x) = None\<close> show ?thesis
          by (simp add: call_client_def)
      next
        case (Some e)
        with Routed \<open>cache_get cache methodName (uri x) = None\<close> show ?thesis
          by (simp add: call_client_def)
      qed
    qed
  qed
qed

lemma map_results_total:
  "\<forall>x. \<exists>y. f x = Inr y \<Longrightarrow> \<exists>ys. map_results f xs = Inr ys"
proof (induction xs)
  case Nil
  then show ?case by simp
next
  case (Cons x xs)
  then obtain y ys where "f x = Inr y" "map_results f xs = Inr ys" by blast
  then show ?case by simp
qed

lemma formatResult_known:
  "\<exists>y. formatResult result (Some c) config = Inr y"
  by (simp add: formatResult_def Let_def)

lemma getResultsAsCollection_total:
  assumes "\<not> nullish data"
  shows "\<exists>ys. getResultsAsCollection data (Some c) config = Inr ys"
proof -
  have "\<exists>ys. map_results (\<lambda>result. formatResult result (Some c) config) xs = Inr ys" for xs
    by (rule map_results_total) (simp add: formatResult_known)
  then have "\<exists>ys. formatResults xs (Some c) config = Inr ys" for xs
    unfolding formatResults_def Let_def
    by (metis (mono_tags, lifting) sum.case(2))
  with assms show ?thesis by (simp add: getResultsAsCollection_def Let_def)
qed

lemma responseErrorCode_total:
  assumes "\<not> truthy res \<or> \<not> nullish (get_prop res ''statusCode'')"
  shows "\<exists>code. responseErrorCode res = Inr code"
  using assms by (auto simp: responseErrorCode_def)

lemma completion_no_throw:
  assumes "callback = Caller \<or> callback = Noop"
      and "\<not> truthy res \<or> \<not> nullish (get_prop res ''statusCode'')"
      and "methodName = ''find'' \<longrightarrow> \<not> nullish data"
      and "this_collections env collection = Some c"
  shows "\<exists>cache1 run. completion m env cache (Completion callback methodName collection config u)
                         err req res data = Some (cache1, run)
                     \<and> thrown run = None"
proof -
  from responseErrorCode_total [OF assms(2)] obtain code where
    code: "responseErrorCode res = Inr code" by blast
  from formatResult_known obtain y where y: "formatResult data (Some c) config = Inr y" by blast
  show ?thesis
  proof (cases "methodName = ''find''")
    case True
    with assms(3) getResultsAsCollection_total obtain ys where
      "getResultsAsCollection data (Some c) config = Inr ys" by blast
    with True code assms(1,4) show ?thesis
      by (auto simp: completion_def returns_def after_def)
  next
    case False
    with code y assms(1,4) show ?thesis
      by (auto simp: completion_def returns_def after_def)
  qed
qed

lemma completion_throws:
  assumes "truthy res" and "nullish (get_prop res ''statusCode'')"
  shows "completion m env cache (Completion callback methodName collection config u)
           err req res data = Some (cache, throws TypeError)"
  using assms by (simp add: completion_def responseErrorCode_def)

text \<open>
  C5, as the code has it. The file has no \<open>try\<close>: \<open>request\<close> throws whatever
  \<open>url.format\<close> or the client's method throws, and a TypeError wherever it reads a
  property of \<open>undefined\<close> or calls what is not a function. Let these conditions hold:
  \<^item> \<open>this.collections\<close> and the method map exist, the configuration has a
    \<open>getPathname\<close> function and, after the overrides from the options, a query object;
  \<^item> the options are falsy or an object, not a truthy primitive;
  \<^item> the values that \<open>request\<close> converts to a string convert without a TypeError: the
    verb, the pathname and the id in the selector;
  \<^item> the callback is the caller's function or \<open>_.noop\<close>; the functions that the user
    supplies (\<open>getPathname\<close>, the callback, the cache engine) are taken to return
    without throwing, as everywhere in this theory.

  Then a call that does not fan out returns, and throws nothing of its own: if it throws,
  then \<open>url.format\<close> threw on the configuration of the call, or the call was routed,
  missed the cache, and the client's method threw on its verb, path and body. Any call,
  fanning out or not, returns without throwing when moreover
  \<^item> the selector and the values are each falsy or an object, so that a body is an object;
  \<^item> \<open>url.format\<close> returns, and the client's methods return when they are called
    without a body or with an object as body;
  \<^item> the verb of \<open>find\<close> converts to a string, and the records in the cache have
    truthy ids that convert to strings (so that a fan-out over them does not fan out
    again).

  With \<open>this.collections\<close> missing, or with a valid verb and no \<open>getPathname\<close>
  function, \<open>request\<close> throws a TypeError, calls nothing and leaves the options as they
  are. The completion handler returns without throwing when the response is falsy or has
  a status code that converts to a string, a \<open>find\<close> has a body and the collection is
  registered; on a response without a status code it throws a TypeError.
\<close>

theorem C5_throwing:
  "(collections env \<noteq> None
      \<and> \<not> nullish (get_own (props (this_config env)) ''methods'')
      \<and> getPathname (resolve_config env collection options) = Some gp
      \<and> isPlainObject (get_own (props (resolve_config env collection options)) ''query'')
      \<and> (\<not> truthy options \<or> isPlainObject options)
      \<and> stringable (rest_method env methodName)
      \<and> (\<forall>c v w x. stringable (gp c v w x))
      \<and> stringable (get_prop (get_prop options ''where'') ''id'')
      \<and> (callback = Caller \<or> callback = Noop)
      \<and> (methodName \<noteq> ''update'' \<and> methodName \<noteq> ''destroy''
          \<or> \<not> truthy (get_prop options ''where'')
          \<or> truthy (get_prop (get_prop options ''where'') ''id'')) \<longrightarrow>
      (\<exists>os run. request (Suc n) env cache collection methodName callback options values
                   = Some (os, run)
         \<and> (thrown run = None
            \<or> (\<exists>e c. thrown run = Some e
                     \<and> route env collection methodName options values = Unformatted e c os
                     \<and> url_format env (url_fields (props c)) = Inl e)
            \<or> (\<exists>e x. thrown run = Some e
                     \<and> route env collection methodName options values = Routed x
                     \<and> cache_get cache methodName (uri x) = None
                     \<and> client_call env (to_string (verb x))
                          (replace_first (client_href env) ''/'' (uri x))
                          (if truthy (opt x) then Some (opt x) else None) = Some e))))
   \<and> (collections env \<noteq> None
      \<and> \<not> nullish (get_own (props (this_config env)) ''methods'')
      \<and> getPathname (resolve_config env collection options) = Some gp
      \<and> isPlainObject (get_own (props (resolve_config env collection options)) ''query'')
      \<and> (\<not> truthy options \<or> isPlainObject options)
      \<and> stringable (rest_method env methodName) \<and> stringable (rest_method env ''find'')
      \<and> (\<forall>c v w x. stringable (gp c v w x))
      \<and> stringable (get_prop (get_prop options ''where'') ''id'')
      \<and> (callback = Caller \<or> callback = Noop)
      \<and> (\<not> truthy (get_prop options ''where'') \<or> isPlainObject (get_prop options ''where''))
      \<and> (\<not> truthy values \<or> isPlainObject values)
      \<and> (\<forall>u. \<exists>s. url_format env u = Inr s)
      \<and> (\<forall>v p. client_call env v p None = None)
      \<and> (\<forall>v p kvs. client_call env v p (Some (Obj kvs)) = None)
      \<and> (\<forall>u rs. cache_get cache ''find'' u = Some rs \<longrightarrow>
            (\<forall>x \<in> set rs. truthy (get_prop x ''id'') \<and> stringable (get_prop x ''id''))) \<longrightarrow>
      (\<exists>os run. request (Suc (Suc (Suc (Suc n)))) env cache collection methodName callback
                   options values = Some (os, run)
               \<and> thrown run = None))
   \<and> (collections env = None
      \<or> \<not> nullish (get_own (props (this_config env)) ''methods'')
        \<and> client_function env (to_string (rest_method env methodName))
        \<and> getPathname (resolve_config env collection options) = None \<longrightarrow>
      request (Suc n) env cache collection methodName callback options values
      = Some (options, throws TypeError))
   \<and> ((callback = Caller \<or> callback = Noop)
      \<and> (\<not> truthy res
          \<or> \<not> nullish (get_prop res ''statusCode'') \<and> stringable (get_prop res ''statusCode''))
      \<and> (methodName = ''find'' \<longrightarrow> \<not> nullish data)
      \<and> this_collections env collection \<noteq> None \<longrightarrow>
      (\<exists>cache1 run. completion m env cache (Completion callback methodName collection config u)
                       err req res data = Some (cache1, run)
                   \<and> thrown run = None))
   \<and> (truthy res \<and> nullish (get_prop res ''statusCode'') \<longrightarrow>
      completion m env cache (Completion callback methodName collection config u)
        err req res data = Some (cache, throws TypeError))"
proof -
  have a: "\<exists>os run. request (Suc n) env cache collection methodName callback options values
                   = Some (os, run)
         \<and> (thrown run = None
            \<or> (\<exists>e c. thrown run = Some e
                     \<and> route env collection methodName options values = Unformatted e c os
                     \<and> url_format env (url_fields (props c)) = Inl e)
            \<or> (\<exists>e x. thrown run = Some e
                     \<and> route env collection methodName options values = Routed x
                     \<and> cache_get cache methodName (uri x) = None
                     \<and> client_call env (to_string (verb x))
                          (replace_first (client_href env) ''/'' (uri x))
                          (if truthy (opt x) then Some (opt x) else None) = Some e))"
    if "collections env \<noteq> None"
       "\<not> nullish (get_own (props (this_config env)) ''methods'')"
       "getPathname (resolve_config env collection options) = Some gp"
       "isPlainObject (get_own (props (resolve_config env collection options)) ''query'')"
       "callback = Caller \<or> callback = Noop"
       "methodName \<noteq> ''update'' \<and> methodName \<noteq> ''destroy''
        \<or> \<not> truthy (get_prop options ''where'')
        \<or> truthy (get_prop (get_prop options ''where'') ''id'')"
    using request_direct [OF that(2,1,3,4,5,6)] .
  have a': "\<exists>os run. request (Suc (Suc (Suc (Suc n)))) env cache collection methodName callback
                   options values = Some (os, run)
               \<and> thrown run = None"
    if "collections env \<noteq> None"
       "\<not> nullish (get_own (props (this_config env)) ''methods'')"
       "getPathname (resolve_config env collection options) = Some gp"
       "isPlainObject (get_own (props (resolve_config env collection options)) ''query'')"
       "\<not> truthy options \<or> isPlainObject options"
       "\<not> truthy (get_prop options ''where'') \<or> isPlainObject (get_prop options ''where'')"
       "\<not> truthy values \<or> isPlainObject values"
       "\<forall>u. \<exists>s. url_format env u = Inr s"
       "(\<forall>v p. client_call env v p None = None)
        \<and> (\<forall>v p kvs. client_call env v p (Some (Obj kvs)) = None)"
       "\<forall>u rs. cache_get cache ''find'' u = Some rs \<longrightarrow>
            (\<forall>x \<in> set rs. truthy (get_prop x ''id'') \<and> stringable (get_prop x ''id''))"
       "callback = Caller \<or> callback = Noop"
  proof -
    from that(10) have "\<forall>u rs. cache_get cache ''find'' u = Some rs \<longrightarrow>
                          (\<forall>x \<in> set rs. truthy (get_prop x ''id''))"
      by blast
    from request_no_throw [OF that(2,1,3,4,5,6,7,8,9) this that(11)] show ?thesis .
  qed
  have b: "request (Suc n) env cache collection methodName callback options values
           = Some (options, throws TypeError)"
    if "collections env = None
        \<or> \<not> nullish (get_own (props (this_config env)) ''methods'')
          \<and> client_function env (to_string (rest_method env methodName))
          \<and> getPathname (resolve_config env collection options) = None"
  proof (cases "collections env = None")
    case True
    from route_no_collections [OF this, of collection methodName options "values"]
    show ?thesis by simp
  next
    case False
    with that route_no_getPathname [of env methodName collection options "values"]
    show ?thesis by simp
  qed
  have c: "\<exists>cache1 run. completion m env cache (Completion callback methodName collection config u)
                       err req res data = Some (cache1, run)
                   \<and> thrown run = None"
    if "callback = Caller \<or> callback = Noop"
       "\<not> truthy res
        \<or> \<not> nullish (get_prop res ''statusCode'') \<and> stringable (get_prop res ''statusCode'')"
       "methodName = ''find'' \<longrightarrow> \<not> nullish data"
       "this_collections env collection \<noteq> None"
  proof -
    from that(2) have "\<not> truthy res \<or> \<not> nullish (get_prop res ''statusCode'')" by blast
    with that(1,3,4) completion_no_throw [of callback res methodName data env collection]
    show ?thesis by auto
  qed
  have d: "completion m env cache (Completion callback methodName collection config u)
        err req res data = Some (cache, throws TypeError)"
    if "truthy res" "nullish (get_prop res ''statusCode'')"
    using that by (rule completion_throws)
  show ?thesis
  proof (intro conjI impI)
    assume "collections env \<noteq> None
      \<and> \<not> nullish (get_own (props (this_config env)) ''methods'')
      \<and> getPathname (resolve_config env collection options) = Some gp
      \<and> isPlainObject (get_own (props (resolve_config env collection options)) ''query'')
      \<and> (\<not> truthy options \<or> isPlainObject options)
      \<and> stringable (rest_method env methodName)
      \<and> (\<forall>c v w x. stringable (gp c v w x))
      \<and> stringable (get_prop (get_prop options ''where'') ''id'')
      \<and> (callback = Caller \<or> callback = Noop)
      \<and> (methodName \<noteq> ''update'' \<and> methodName \<noteq> ''destroy''
          \<or> \<not> truthy (get_prop options ''where'')
          \<or> truthy (get_prop (get_prop options ''where'') ''id''))"
    then show "\<exists>os run. request (Suc n) env cache collection methodName callback options values
                   = Some (os, run)
         \<and> (thrown run = None
            \<or> (\<exists>e c. thrown run = Some e
                     \<and> route env collection methodName options values = Unformatted e c os
                     \<and> url_format env (url_fields (props c)) = Inl e)
            \<or> (\<exists>e x. thrown run = Some e
                     \<and> route env collection methodName options values = Routed x
                     \<and> cache_get cache methodName (uri x) = None
                     \<and> client_call env (to_string (verb x))
                          (replace_first (client_href env) ''/'' (uri x))
                          (if truthy (opt x) then Some (opt x) else None) = Some e))"
      by (intro a) simp_all
  next
    assume "collections env \<noteq> None
      \<and> \<not> nullish (get_own (props (this_config env)) ''methods'')
      \<and> getPathname (resolve_config env collection options) = Some gp
      \<and> isPlainObject (get_own (props (resolve_config env collection options)) ''query'')
      \<and> (\<not> truthy options \<or> isPlainObject options)
      \<and> stringable (rest_method env methodName) \<and> stringable (rest_method env ''find'')
      \<and> (\<forall>c v w x. stringable (gp c v w x))
      \<and> stringable (get_prop (get_prop options ''where'') ''id'')
      \<and> (callback = Caller \<or> callback = Noop)
      \<and> (\<not> truthy (get_prop options ''where'') \<or> isPlainObject (get_prop options ''where''))
      \<and> (\<not> truthy values \<or> isPlainObject values)
      \<and> (\<forall>u. \<exists>s. url_format env u = Inr s)
      \<and> (\<forall>v p. client_call env v p None = None)
      \<and> (\<forall>v p kvs. client_call env v p (Some (Obj kvs)) = None)
      \<and> (\<forall>u rs. cache_get cache ''find'' u = Some rs \<longrightarrow>
            (\<forall>x \<in> set rs. truthy (get_prop x ''id'') \<and> stringable (get_prop x ''id'')))"
    then show "\<exists>os run. request (Suc (Suc (Suc (Suc n)))) env cache collection methodName callback
                   options values = Some (os, run)
               \<and> thrown run = None"
      by (intro a') simp_all
  next
    assume "collections env = None
      \<or> \<not> nullish (get_own (props (this_config env)) ''methods'')
        \<and> client_function env (to_string (rest_method env methodName))
        \<and> getPathname (resolve_config env collection options) = None"
    then show "request (Suc n) env cache collection methodName callback options values
      = Some (options, throws TypeError)"
      by (rule b)
  next
    assume "(callback = Caller \<or> callback = Noop)
      \<and> (\<not> truthy res
          \<or> \<not> nullish (get_prop res ''statusCode'') \<and> stringable (get_prop res ''statusCode''))
      \<and> (methodName = ''find'' \<longrightarrow> \<not> nullish data)
      \<and> this_collections env collection \<noteq> None"
    then show "\<exists>cache1 run. completion m env cache
                       (Completion callback methodName collection config u)
                       err req res data = Some (cache1, run)
                   \<and> thrown run = None"
      by (intro c) simp_all
  next
    assume "truthy res \<and> nullish (get_prop res ''statusCode'')"
    then show "completion m env cache (Completion callback methodName collection config u)
        err req res data = Some (cache, throws TypeError)"
      by (intro d) simp_all
  qed
qed

theorem C5_throwing_witness:
  "collections example_env \<noteq> None
   \<and> \<not> nullish (get_own (props (this_config example_env)) ''methods'')
   \<and> getPathname (resolve_config example_env ''widget'' where_id_7) = Some Resource_getPathname
   \<and> isPlainObject (get_own (props (resolve_config example_env ''widget'' where_id_7)) ''query'')
   \<and> isPlainObject where_id_7
   \<and> stringable (rest_method example_env ''find'')
   \<and> stringable (get_prop (get_prop where_id_7 ''where'') ''id'')
   \<and> truthy (get_prop (get_prop where_id_7 ''where'') ''id'')
   \<and> (\<exists>os run. request (Suc 0) example_env None ''widget'' ''find'' Caller
                   where_id_7 Undefined = Some (os, run)
               \<and> thrown run = None)
   \<and> getPathname (resolve_config example_env ''widget'' where_red) = Some Resource_getPathname
   \<and> isPlainObject (get_own (props (resolve_config example_env ''widget'' where_red)) ''query'')
   \<and> isPlainObject where_red
   \<and> stringable (rest_method example_env ''update'')
   \<and> stringable (get_prop (get_prop where_red ''where'') ''id'')
   \<and> list_all (\<lambda>x. truthy (get_prop x ''id'') \<and> stringable (get_prop x ''id'')) two_records
   \<and> (\<exists>os run. request (Suc (Suc (Suc (Suc 0)))) example_env (Some full_cache) ''widget''
                   ''update'' Caller where_red price_5 = Some (os, run)
               \<and> thrown run = None)
   \<and> collections no_pathname_env \<noteq> None
   \<and> \<not> nullish (get_own (props (this_config no_pathname_env)) ''methods'')
   \<and> client_function no_pathname_env (to_string (rest_method no_pathname_env ''find''))
   \<and> getPathname (resolve_config no_pathname_env ''widget'' where_id_7) = None
   \<and> request (Suc 0) no_pathname_env None ''widget'' ''find'' Caller where_id_7 Undefined
       = Some (where_id_7, throws TypeError)
   \<and> collections no_collections_env = None
   \<and> request (Suc 0) no_collections_env None ''widget'' ''find'' Caller where_id_7 Undefined
       = Some (where_id_7, throws TypeError)
   \<and> \<not> nullish (get_prop response_200 ''statusCode'')
   \<and> stringable (get_prop response_200 ''statusCode'')
   \<and> this_collections example_env ''widget'' \<noteq> None
   \<and> (\<exists>cache1 run. completion 0 example_env None
                       (Completion Caller ''update'' ''widget'' example_config ''u'')
                       Null Null response_200 price_5 = Some (cache1, run)
                   \<and> thrown run = None)
   \<and> truthy response_bare \<and> nullish (get_prop response_bare ''statusCode'')
   \<and> completion 0 example_env None (Completion Caller ''update'' ''widget'' example_config ''u'')
        Null Null response_bare price_5 = Some (None, throws TypeError)"
proof -
  have a: "collections example_env \<noteq> None"
    "\<not> nullish (get_own (props (this_config example_env)) ''methods'')"
    "getPathname (resolve_config example_env ''widget'' where_id_7) = Some Resource_getPathname"
    "isPlainObject (get_own (props (resolve_config example_env ''widget'' where_id_7)) ''query'')"
    "stringable (rest_method example_env ''find'')"
    "stringable (get_prop (get_prop where_id_7 ''where'') ''id'')"
    "isPlainObject where_id_7"
    "truthy (get_prop (get_prop where_id_7 ''where'') ''id'')"
    by (simp_all add: pipeline_defs example_env_def example_config_def example_methods_def
          where_id_7_def)
  have a2: "getPathname (resolve_config example_env ''widget'' where_red)
              = Some Resource_getPathname"
    "isPlainObject (get_own (props (resolve_config example_env ''widget'' where_red)) ''query'')"
    "isPlainObject where_red"
    "stringable (rest_method example_env ''update'')"
    "stringable (get_prop (get_prop where_red ''where'') ''id'')"
    by (simp_all add: pipeline_defs example_env_def example_config_def example_methods_def
          where_red_def)
  have ids: "list_all (\<lambda>x. truthy (get_prop x ''id'') \<and> stringable (get_prop x ''id''))
               two_records"
    by (simp add: two_records_def get_own_def)
  then have a': "\<forall>u rs. cache_get (Some full_cache) ''find'' u = Some rs
                    \<longrightarrow> (\<forall>x \<in> set rs. truthy (get_prop x ''id'') \<and> stringable (get_prop x ''id''))"
    by (simp add: cache_get_def full_cache_def list_all_iff)
  have a'': "\<forall>c v w x. stringable (Resource_getPathname c v w x)"
    by (simp add: Resource_getPathname_def)
  have col: "\<forall>u. \<exists>s. url_format example_env u = Inr s"
    "\<forall>v p. client_call example_env v p None = None"
    "\<forall>v p kvs. client_call example_env v p (Some (Obj kvs)) = None"
    "\<not> truthy price_5 \<or> isPlainObject price_5"
    "\<not> truthy (get_prop where_red ''where'') \<or> isPlainObject (get_prop where_red ''where'')"
    by (simp_all add: example_env_def example_client_call_def price_5_def where_red_def
          get_own_def)
  have ncol: "url_format example_env u \<noteq> Inl e" for u e
    by (simp add: example_env_def)
  have nthrow: "route example_env ''widget'' ''find'' where_id_7 Undefined = Routed x
                \<Longrightarrow> client_call example_env (to_string (verb x))
                      (replace_first (client_href example_env) ''/'' (uri x))
                      (if truthy (opt x) then Some (opt x) else None) \<noteq> Some e" for x e
    using route_find_7
    by (auto simp: routed_find_7_def example_env_def example_client_call_def)
  have b: "collections no_pathname_env \<noteq> None"
    "\<not> nullish (get_own (props (this_config no_pathname_env)) ''methods'')"
    "client_function no_pathname_env (to_string (rest_method no_pathname_env ''find''))"
    "getPathname (resolve_config no_pathname_env ''widget'' where_id_7) = None"
    by (simp_all add: pipeline_defs no_pathname_env_def example_env_def example_config_def
          example_methods_def where_id_7_def)
  have b': "collections no_collections_env = None"
    by (simp add: no_collections_env_def)
  have c: "\<not> nullish (get_prop response_200 ''statusCode'')"
    "stringable (get_prop response_200 ''statusCode'')"
    "this_collections example_env ''widget'' \<noteq> None"
    by (simp_all add: response_200_def get_own_def example_env_def this_collections_def)
  have d: "truthy response_bare" "nullish (get_prop response_bare ''statusCode'')"
    by (simp_all add: response_bare_def get_own_def)
  note t1 = C5_throwing [of example_env "''widget''" where_id_7 Resource_getPathname "''find''"
                           Caller 0 None Undefined]
  note t1' = C5_throwing [of example_env "''widget''" where_red Resource_getPathname "''update''"
                           Caller 0 "Some full_cache" price_5]
  note t2 = C5_throwing [of no_pathname_env "''widget''" where_id_7 _ "''find''" Caller
                           0 None Undefined]
  note t2' = C5_throwing [of no_collections_env "''widget''" where_id_7 _ "''find''" Caller
                           0 None Undefined]
  note t3 = C5_throwing [of example_env "''widget''" _ _ "''update''" Caller
                           0 None _ response_200 price_5 0 example_config "''u''"
                           Null Null]
  note t4 = C5_throwing [of example_env "''widget''" _ _ "''update''" Caller
                           0 None _ response_bare price_5 0 example_config "''u''"
                           Null Null]
  have "\<exists>os run. request (Suc 0) example_env None ''widget'' ''find'' Caller
           where_id_7 Undefined = Some (os, run)
     \<and> (thrown run = None
         \<or> (\<exists>e c. thrown run = Some e
                 \<and> route example_env ''widget'' ''find'' where_id_7 Undefined = Unformatted e c os
                 \<and> url_format example_env (url_fields (props c)) = Inl e)
         \<or> (\<exists>e x. thrown run = Some e
                 \<and> route example_env ''widget'' ''find'' where_id_7 Undefined = Routed x
                 \<and> cache_get None ''find'' (uri x) = None
                 \<and> client_call example_env (to_string (verb x))
                      (replace_first (client_href example_env) ''/'' (uri x))
                      (if truthy (opt x) then Some (opt x) else None) = Some e))"
    using a a'' by (intro t1 [THEN conjunct1, THEN mp] conjI) simp_all
  then obtain os run where
    rq: "request (Suc 0) example_env None ''widget'' ''find'' Caller
           where_id_7 Undefined = Some (os, run)"
    and "thrown run = None
         \<or> (\<exists>e c. thrown run = Some e
                 \<and> route example_env ''widget'' ''find'' where_id_7 Undefined = Unformatted e c os
                 \<and> url_format example_env (url_fields (props c)) = Inl e)
         \<or> (\<exists>e x. thrown run = Some e
                 \<and> route example_env ''widget'' ''find'' where_id_7 Undefined = Routed x
                 \<and> cache_get None ''find'' (uri x) = None
                 \<and> client_call example_env (to_string (verb x))
                      (replace_first (client_href example_env) ''/'' (uri x))
                      (if truthy (opt x) then Some (opt x) else None) = Some e)"
    by blast
  with ncol nthrow have "thrown run = None"
    by auto
  with rq have e: "\<exists>os run. request (Suc 0) example_env None ''widget''
                   ''find'' Caller where_id_7 Undefined = Some (os, run)
               \<and> thrown run = None"
    by blast
  have e': "\<exists>os run. request (Suc (Suc (Suc (Suc 0)))) example_env (Some full_cache) ''widget''
                   ''update'' Caller where_red price_5 = Some (os, run)
               \<and> thrown run = None"
    using a a2 a' a'' col
    by (intro t1' [THEN conjunct2, THEN conjunct1, THEN mp] conjI) simp_all
  from t2 b have f: "request (Suc 0) no_pathname_env None ''widget'' ''find'' Caller where_id_7
                       Undefined = Some (where_id_7, throws TypeError)"
    by blast
  from t2' b' have f': "request (Suc 0) no_collections_env None ''widget'' ''find'' Caller
                         where_id_7 Undefined = Some (where_id_7, throws TypeError)"
    by blast
  from t3 c have g: "\<exists>cache1 run. completion 0 example_env None
                       (Completion Caller ''update'' ''widget'' example_config ''u'')
                       Null Null response_200 price_5 = Some (cache1, run)
                   \<and> thrown run = None"
    by auto
  from t4 d have h: "completion 0 example_env None
                       (Completion Caller ''update'' ''widget'' example_config ''u'')
                       Null Null response_bare price_5 = Some (None, throws TypeError)"
    by blast
  from a a2 ids b b' c d e e' f f' g h show ?thesis by blast
qed

text \<open>
  C5 as stated fails. With a configuration that has no \<open>getPathname\<close> function,
  \<open>find\<close> throws a TypeError and the callback is not called. The completion handler
  throws a TypeError on a response object without a status code, on a \<open>find\<close> answered
  with the body \<open>null\<close>, and for a collection that is not registered. A \<open>create\<close>
  with the string \<open>'abc'\<close> as values throws the AssertionError of the client, which
  rejects such a body, and calls no callback. A \<open>find\<close> with the options
  \<open>{where: {id: 7}, limit: 3}\<close> on a configuration without a query throws a TypeError
  at line 215, after line 189 has deleted the id from the caller's options.
\<close>

theorem C5_counterexample:
  "find_js (Suc 0) no_pathname_env None ''widget'' where_id_7 Caller
   = Some (where_id_7, throws TypeError)
   \<and> completion 0 example_env None (Completion Caller ''find'' ''widget'' example_config ''u'')
       Null Null response_bare (Arr [])
     = Some (None, throws TypeError)
   \<and> completion 0 example_env None (Completion Caller ''find'' ''widget'' example_config ''u'')
       Null Null response_200 Null
     = Some (None, throws TypeError)
   \<and> completion 0 example_env None (Completion Caller ''update'' ''gadget'' example_config ''u'')
       Null Null response_200 price_5
     = Some (None, throws TypeError)
   \<and> map_option (\<lambda>(options, r). (thrown r, calls (trace r), filter is_called (trace r)))
       (create (Suc 0) example_env None ''widget'' (Str ''abc'') Caller)
     = Some (Some (Raised ''AssertionError''),
             [(''post'', ''/api/widgets'', Some (Str ''abc''))], [])
   \<and> find_js (Suc 0) no_query_env None ''widget'' where_id_7_limit_3 Caller
     = Some (Obj [(''where'', Obj []), (''limit'', Num 3)], throws TypeError)"
  by (simp add: find_js_def create_def pipeline_defs no_pathname_env_def
        no_query_env_def example_env_def example_client_call_def example_config_def
        example_methods_def where_id_7_def where_id_7_limit_3_def completion_def
        responseErrorCode_def example_url_format_def example_query_string_def
        Resource_getPathname_def copy_keys.simps
        response_bare_def response_200_def show_int_def show_nat_3_digits digit_char_def
        failed_def getResultsAsCollection_def formatResult_def is_digit_def)

end
